theory Spec2Isabelle
  imports Complex_Main
begin

section \<open>Numeric data\<close>

text \<open>
  Arrays of floats are lists of reals. Where numpy would produce a non-finite value (a
  division by zero, the logarithm of a non-positive number) the model stops with
  \<open>NotFinite\<close>; where Python raises, the model returns the exception.
\<close>

datatype error =
  ValueError | IndexError | ZeroDivisionError | NameError | TypeError | AssertionError
  | NotFinite

type_synonym vec = "real list"

text \<open>
  A design matrix is the list of its rows, one row per sample, all of the same length
  (numpy arrays are rectangular). The number of features is read off the first row, so a
  matrix without rows counts as having no features.
\<close>

type_synonym matrix = "real list list"

definition n_samples :: "matrix \<Rightarrow> nat" where
  "n_samples X = length X"

definition n_features :: "matrix \<Rightarrow> nat" where
  "n_features X = (case X of [] \<Rightarrow> 0 | r # _ \<Rightarrow> length r)"

definition dot :: "vec \<Rightarrow> vec \<Rightarrow> real" where
  "dot a b = sum_list (map2 (*) a b)"

definition column :: "matrix \<Rightarrow> nat \<Rightarrow> vec" where
  "column X j = map (\<lambda>row. row ! j) X"

text \<open>
  The code computes in IEEE double precision, and some of its decisions depend on how a
  result is rounded. The operations concerned are parameters of the model, so that what
  is proved holds however they round:
  \<^item> \<open>nm_dot X v j\<close>: entry \<open>j\<close> of \<open>np.dot(X.T, v)\<close>, the product of column
    \<open>j\<close> of \<open>X\<close> with \<open>v\<close>;
  \<^item> \<open>nm_round x\<close>: the float that a single arithmetic operation returns when its
    exact result is \<open>x\<close>;
  \<^item> \<open>nm_store x\<close>: the value held by an array of the dtype of the response after
    the float \<open>x\<close> was assigned to one of its entries (\<open>x\<close> itself for an array
    of floats, \<open>x\<close> truncated towards zero for an array of integers);
  \<^item> \<open>nm_mean xs\<close>: \<open>np.mean\<close> of an array of finite floats;
  \<^item> \<open>nm_log10 x\<close> and \<open>nm_power10 t\<close>: \<open>np.log10(x)\<close> for positive
    \<open>x\<close>, and \<open>10.0 ** t\<close>.
  All other arithmetic of the model is exact.
\<close>

record numerics =
  nm_dot :: "matrix \<Rightarrow> vec \<Rightarrow> nat \<Rightarrow> real"
  nm_round :: "real \<Rightarrow> real"
  nm_store :: "real \<Rightarrow> real"
  nm_mean :: "vec \<Rightarrow> real"
  nm_log10 :: "real \<Rightarrow> real"
  nm_power10 :: "real \<Rightarrow> real"

text \<open>Arithmetic without rounding, on a response held as floats.\<close>

definition exact_arithmetic :: numerics where
  "exact_arithmetic =
     \<lparr>nm_dot = (\<lambda>X v j. dot (column X j) v), nm_round = (\<lambda>x. x), nm_store = (\<lambda>x. x),
      nm_mean = (\<lambda>xs. sum_list xs / real (length xs)),
      nm_log10 = log 10, nm_power10 = (\<lambda>t. 10 powr t)\<rparr>"










text \<open>\<open>np.dot(X.T, v)\<close>: one entry per feature; the lengths must agree.\<close>

definition XT_dot :: "numerics \<Rightarrow> matrix \<Rightarrow> vec \<Rightarrow> error + vec" where
  "XT_dot nm X v =
     (if length v \<noteq> n_samples X then Inl ValueError
      else Inr (map (nm_dot nm X v) [0..<n_features X]))"

text \<open>\<open>np.abs(v).max()\<close>: the maximum of an empty array raises.\<close>

fun abs_max :: "vec \<Rightarrow> error + real" where
  "abs_max [] = Inl ValueError"
| "abs_max (x # xs) = Inr (fold (\<lambda>t m. max \<bar>t\<bar> m) xs \<bar>x\<bar>)"

definition max_abs_XT_dot :: "numerics \<Rightarrow> matrix \<Rightarrow> vec \<Rightarrow> error + real" where
  "max_abs_XT_dot nm X v = (case XT_dot nm X v of Inl e \<Rightarrow> Inl e | Inr c \<Rightarrow> abs_max c)"

section \<open>The alpha grid (\<open>_space_net_alpha_grid\<close>)\<close>

text \<open>
  The class-balanced pseudo-residual of the logistic bound:
  \<open>m = float(y.size)\<close>, \<open>b = np.zeros_like(y)\<close>, \<open>b[y == 1] = m_minus / m\<close>,
  \<open>b[y == -1] = - m_plus / m\<close>; the other entries stay zero. The quotients are
  quotients of Python floats, so an empty \<open>y\<close> raises; each is rounded to a float and
  then stored into \<open>b\<close>, which has the dtype of \<open>y\<close>.
\<close>

definition pseudo_residual :: "numerics \<Rightarrow> vec \<Rightarrow> error + vec" where
  "pseudo_residual nm y =
     (let m = real (length y);
          m_plus = real (length (filter (\<lambda>t. t = 1) y));
          m_minus = real (length (filter (\<lambda>t. t = - 1) y))
      in if y = [] then Inl ZeroDivisionError
         else Inr (map (\<lambda>t. if t = 1 then nm_store nm (nm_round nm (m_minus / m))
                              else if t = - 1 then nm_store nm (nm_round nm (- m_plus / m))
                              else 0) y))"

text \<open>
  The loss-specific bound, before rescaling (the \<open>if logistic: ... else: ...\<close> block).
  The test \<open>alpha_max == 0.\<close> is made on the computed value of the bound.
\<close>

definition alpha_max_bound :: "numerics \<Rightarrow> matrix \<Rightarrow> vec \<Rightarrow> bool \<Rightarrow> error + real" where
  "alpha_max_bound nm X y logistic =
     (if logistic then
        (case pseudo_residual nm y of
           Inl e \<Rightarrow> Inl e
         | Inr b \<Rightarrow>
            (case max_abs_XT_dot nm X b of
               Inl e \<Rightarrow> Inl e
             | Inr alpha_max \<Rightarrow>
                 if alpha_max = 0 then max_abs_XT_dot nm X y else Inr alpha_max))
      else max_abs_XT_dot nm X y)"

text \<open>
  \<open>if l1_ratio == 0.: l1_ratio = 1e-3\<close>, then \<open>alpha_max /= (X.shape[0] * l1_ratio)\<close>.
\<close>

definition rescale_alpha_max :: "matrix \<Rightarrow> real \<Rightarrow> real \<Rightarrow> error + real" where
  "rescale_alpha_max X l1_ratio alpha_max =
     (let l1_ratio' = (if l1_ratio = 0 then 1 / 1000 else l1_ratio);
          d = real (n_samples X) * l1_ratio'
      in if d = 0 then Inl NotFinite else Inr (alpha_max / d))"

definition computed_alpha_max ::
  "numerics \<Rightarrow> matrix \<Rightarrow> vec \<Rightarrow> real \<Rightarrow> bool \<Rightarrow> error + real" where
  "computed_alpha_max nm X y l1_ratio logistic =
     (case alpha_max_bound nm X y logistic of
        Inl e \<Rightarrow> Inl e
      | Inr a \<Rightarrow> rescale_alpha_max X l1_ratio a)"

text \<open>\<open>np.log10\<close>: the logarithm as the floating-point library computes it.\<close>

definition np_log10 :: "numerics \<Rightarrow> real \<Rightarrow> error + real" where
  "np_log10 nm x = (if 0 < x then Inr (nm_log10 nm x) else Inl NotFinite)"

text \<open>
  \<open>np.linspace(start, stop, num)\<close> with the end point included: \<open>num\<close> evenly spaced
  samples, the last one set to \<open>stop\<close>.
\<close>

definition np_linspace :: "real \<Rightarrow> real \<Rightarrow> int \<Rightarrow> error + vec" where
  "np_linspace start stop num =
     (if num < 0 then Inl ValueError
      else
        let n = nat num; d = n - 1; delta = stop - start;
            y = (if 0 < d then map (\<lambda>i. real i * (delta / real d) + start) [0..<n]
                 else map (\<lambda>i. real i * delta + start) [0..<n])
        in Inr (if 1 < n then y[n - 1 := stop] else y))"

text \<open>
  \<open>np.logspace(start, stop, num)\<close>: the power \<open>10.0 ** t\<close>, as the floating-point
  library computes it, of every sample \<open>t\<close> of \<open>np.linspace(start, stop, num)\<close>.
\<close>

definition np_logspace :: "numerics \<Rightarrow> real \<Rightarrow> real \<Rightarrow> int \<Rightarrow> error + vec" where
  "np_logspace nm start stop num =
     (case np_linspace start stop num of
        Inl e \<Rightarrow> Inl e
      | Inr y \<Rightarrow> Inr (map (nm_power10 nm) y))"

definition space_net_alpha_grid ::
  "numerics \<Rightarrow> matrix \<Rightarrow> vec \<Rightarrow> real \<Rightarrow> int \<Rightarrow> real \<Rightarrow> bool \<Rightarrow> error + vec" where
  "space_net_alpha_grid nm X y eps n_alphas l1_ratio logistic =
     (case computed_alpha_max nm X y l1_ratio logistic of
        Inl e \<Rightarrow> Inl e
      | Inr alpha_max \<Rightarrow>
          if n_alphas = 1 then Inr [alpha_max]
          else
            let alpha_min = alpha_max * eps in
            (case np_log10 nm alpha_min of
               Inl e \<Rightarrow> Inl e
             | Inr lo \<Rightarrow>
                (case np_log10 nm alpha_max of
                   Inl e \<Rightarrow> Inl e
                 | Inr hi \<Rightarrow>
                    (case np_logspace nm lo hi n_alphas of
                       Inl e \<Rightarrow> Inl e
                     | Inr g \<Rightarrow> Inr (rev g)))))"


section \<open>Spatial operators (\<open>gradient_id\<close>, \<open>div_id\<close>)\<close>

text \<open>
  An N-dimensional array is its shape together with the value at each multi-index
  (one coordinate per axis, the first axis first). Values at multi-indices outside the
  shape are never read by a well-formed program and carry no meaning.
\<close>

record ndarray =
  shape :: "nat list"
  entry :: "nat list \<Rightarrow> real"

definition ndim :: "ndarray \<Rightarrow> nat" where
  "ndim a = length (shape a)"

definition zeros :: "nat list \<Rightarrow> ndarray" where
  "zeros sh = \<lparr>shape = sh, entry = (\<lambda>_. 0)\<rparr>"

text \<open>All multi-indices of a shape, in C order.\<close>

fun indices :: "nat list \<Rightarrow> nat list list" where
  "indices [] = [[]]"
| "indices (n # ns) = concat (map (\<lambda>i. map ((#) i) (indices ns)) [0..<n])"

text \<open>\<open>np.sum(a * b)\<close> for two arrays of the same shape.\<close>

definition inner :: "ndarray \<Rightarrow> ndarray \<Rightarrow> real" where
  "inner a b = sum_list (map (\<lambda>i. entry a i * entry b i) (indices (shape a)))"

text \<open>\<open>a[k]\<close>: the sub-array at position \<open>k\<close> of the first axis.\<close>

definition sub_array :: "ndarray \<Rightarrow> nat \<Rightarrow> ndarray" where
  "sub_array a k = \<lparr>shape = tl (shape a), entry = (\<lambda>idx. entry a (k # idx))\<rparr>"

definition scale :: "real \<Rightarrow> ndarray \<Rightarrow> ndarray" where
  "scale c a = a\<lparr>entry := (\<lambda>i. c * entry a i)\<rparr>"

definition minus_array :: "ndarray \<Rightarrow> ndarray \<Rightarrow> ndarray" where
  "minus_array a b = a\<lparr>entry := (\<lambda>i. entry a i - entry b i)\<rparr>"

text \<open>\<open>np.diff(img, axis=d)\<close>: forward differences, one entry fewer along axis \<open>d\<close>.\<close>

definition np_diff :: "ndarray \<Rightarrow> nat \<Rightarrow> ndarray" where
  "np_diff img d =
     \<lparr>shape = (shape img)[d := shape img ! d - 1],
      entry = (\<lambda>i. entry img (i[d := i ! d + 1]) - entry img i)\<rparr>"

text \<open>
  \<open>gradient[slice_all] = D\<close> at step \<open>d\<close> of the loop, where \<open>slice_all\<close> is
  \<open>[d, :, ..., :, :-1]\<close> with the \<open>:-1\<close> on axis \<open>d\<close> of the image.
\<close>

definition assign_diff :: "ndarray \<Rightarrow> nat \<Rightarrow> ndarray \<Rightarrow> ndarray" where
  "assign_diff gradient d D =
     gradient\<lparr>entry := (\<lambda>i. case i of
         [] \<Rightarrow> entry gradient i
       | k # idx \<Rightarrow>
           if k = d \<and> idx ! d + 1 < shape gradient ! (d + 1) then entry D idx
           else entry gradient i)\<rparr>"

text \<open>\<open>gradient[:-1] *= c\<close>.\<close>

definition scale_but_last :: "ndarray \<Rightarrow> real \<Rightarrow> ndarray" where
  "scale_but_last gradient c =
     gradient\<lparr>entry := (\<lambda>i. case i of
         [] \<Rightarrow> entry gradient i
       | k # idx \<Rightarrow> if k + 1 < hd (shape gradient) then c * entry gradient i else entry gradient i)\<rparr>"

text \<open>\<open>gradient[-1] = a\<close>.\<close>

definition assign_last :: "ndarray \<Rightarrow> ndarray \<Rightarrow> ndarray" where
  "assign_last gradient a =
     gradient\<lparr>entry := (\<lambda>i. case i of
         [] \<Rightarrow> entry gradient i
       | k # idx \<Rightarrow> if k + 1 = hd (shape gradient) then entry a idx else entry gradient i)\<rparr>"

definition gradient_id :: "ndarray \<Rightarrow> real \<Rightarrow> error + ndarray" where
  "gradient_id img l1_ratio =
     (if \<not> (0 \<le> l1_ratio \<and> l1_ratio \<le> 1) then Inl AssertionError
      else
        let sh = (ndim img + 1) # shape img;
            gradient = fold (\<lambda>d g. assign_diff g d (np_diff img d)) [0..<ndim img] (zeros sh);
            gradient = scale_but_last gradient (1 - l1_ratio);
            gradient = assign_last gradient (scale l1_ratio img)
        in Inr gradient)"

text \<open>
  The three slice updates of one pass of the loop of \<open>div_id\<close>, on the views with
  axis \<open>d\<close> rolled to the front; \<open>n\<close> is the length of that axis.
  \<open>this_res[:-1] += this_grad[:-1]\<close>:
\<close>

definition add_front :: "nat \<Rightarrow> ndarray \<Rightarrow> ndarray \<Rightarrow> ndarray" where
  "add_front d this_grad res =
     (let n = shape res ! d in
      res\<lparr>entry := (\<lambda>i. if i ! d + 1 < n then entry res i + entry this_grad i else entry res i)\<rparr>)"

text \<open>\<open>this_res[1:-1] -= this_grad[:-2]\<close>:\<close>

definition sub_shifted :: "nat \<Rightarrow> ndarray \<Rightarrow> ndarray \<Rightarrow> ndarray" where
  "sub_shifted d this_grad res =
     (let n = shape res ! d in
      res\<lparr>entry := (\<lambda>i. if 1 \<le> i ! d \<and> i ! d + 1 < n
                      then entry res i - entry this_grad (i[d := i ! d - 1]) else entry res i)\<rparr>)"

text \<open>\<open>if len(this_grad) > 1: this_res[-1] -= this_grad[-2]\<close>:\<close>

definition sub_last :: "nat \<Rightarrow> ndarray \<Rightarrow> ndarray \<Rightarrow> ndarray" where
  "sub_last d this_grad res =
     (let n = shape res ! d in
      if 1 < n
      then res\<lparr>entry := (\<lambda>i. if i ! d = n - 1 then entry res i - entry this_grad (i[d := n - 2])
                            else entry res i)\<rparr>
      else res)"

definition div_axis :: "ndarray \<Rightarrow> nat \<Rightarrow> ndarray \<Rightarrow> ndarray" where
  "div_axis grad d res =
     (let this_grad = sub_array grad d in
      sub_last d this_grad (sub_shifted d this_grad (add_front d this_grad res)))"

text \<open>
  \<open>div_id\<close>. \<open>grad.shape[0]\<close> needs at least one axis, \<open>np.rollaxis\<close> refuses an axis
  beyond the rank of the image, and \<open>grad[-1]\<close> needs a non-empty first axis.
\<close>

definition div_id :: "ndarray \<Rightarrow> real \<Rightarrow> error + ndarray" where
  "div_id grad l1_ratio =
     (if \<not> (0 \<le> l1_ratio \<and> l1_ratio \<le> 1) then Inl AssertionError
      else
        (case shape grad of
           [] \<Rightarrow> Inl IndexError
         | n0 # sh \<Rightarrow>
             if length sh < n0 - 1 then Inl ValueError
             else if n0 = 0 then Inl IndexError
             else
               let res = fold (div_axis grad) [0..<n0 - 1] (zeros sh);
                   res = scale (1 - l1_ratio) res;
                   res = minus_array res (scale l1_ratio (sub_array grad (n0 - 1)))
               in Inr res))"

text \<open>
  The two sides of the adjointness relation: \<open>np.sum(gradient_id(u, r) * v)\<close> and
  \<open>np.sum(u * div_id(v, r))\<close>.
\<close>

definition gradient_inner :: "ndarray \<Rightarrow> ndarray \<Rightarrow> real \<Rightarrow> error + real" where
  "gradient_inner u v r =
     (case gradient_id u r of Inl e \<Rightarrow> Inl e | Inr G \<Rightarrow> Inr (inner G v))"

definition div_inner :: "ndarray \<Rightarrow> ndarray \<Rightarrow> real \<Rightarrow> error + real" where
  "div_inner u v r =
     (case div_id v r of Inl e \<Rightarrow> Inl e | Inr D \<Rightarrow> Inr (inner u D))"

text \<open>Concrete arrays of one and two axes, from their (nested) lists of entries.\<close>

definition array1 :: "real list \<Rightarrow> ndarray" where
  "array1 xs = \<lparr>shape = [length xs], entry = (\<lambda>i. case i of [k] \<Rightarrow> xs ! k | _ \<Rightarrow> 0)\<rparr>"

definition array2 :: "real list list \<Rightarrow> ndarray" where
  "array2 xss =
     \<lparr>shape = [length xss, length (hd xss)],
      entry = (\<lambda>i. case i of [j, k] \<Rightarrow> xss ! j ! k | _ \<Rightarrow> 0)\<rparr>"

section \<open>Scores\<close>

text \<open>
  A test score is a float that may be infinite or not a number: a constant weight map
  scores \<open>-inf\<close>, a correlation with a constant vector is \<open>nan\<close>. Finite values are
  reals; the special values follow IEEE 754.
\<close>

datatype npfloat = Fin real | PInf | NInf | NaN

fun fneg :: "npfloat \<Rightarrow> npfloat" where
  "fneg (Fin a) = Fin (- a)"
| "fneg PInf = NInf"
| "fneg NInf = PInf"
| "fneg NaN = NaN"

fun fadd :: "npfloat \<Rightarrow> npfloat \<Rightarrow> npfloat" where
  "fadd NaN _ = NaN"
| "fadd _ NaN = NaN"
| "fadd (Fin a) (Fin b) = Fin (a + b)"
| "fadd (Fin a) PInf = PInf"
| "fadd (Fin a) NInf = NInf"
| "fadd PInf (Fin b) = PInf"
| "fadd NInf (Fin b) = NInf"
| "fadd PInf PInf = PInf"
| "fadd NInf NInf = NInf"
| "fadd PInf NInf = NaN"
| "fadd NInf PInf = NaN"

text \<open>The difference of two floats: rounded when both are finite.\<close>

fun fsub :: "numerics \<Rightarrow> npfloat \<Rightarrow> npfloat \<Rightarrow> npfloat" where
  "fsub nm (Fin a) (Fin b) = Fin (nm_round nm (a - b))"
| "fsub nm a b = fadd a (fneg b)"

text \<open>\<open>a >= b\<close>, \<open>a > b\<close> and \<open>a == b\<close>: every comparison with \<open>nan\<close> is false.\<close>

fun fge :: "npfloat \<Rightarrow> npfloat \<Rightarrow> bool" where
  "fge NaN _ = False"
| "fge _ NaN = False"
| "fge (Fin a) (Fin b) = (b \<le> a)"
| "fge PInf _ = True"
| "fge _ NInf = True"
| "fge (Fin a) PInf = False"
| "fge NInf _ = False"

fun fgt :: "npfloat \<Rightarrow> npfloat \<Rightarrow> bool" where
  "fgt NaN _ = False"
| "fgt _ NaN = False"
| "fgt (Fin a) (Fin b) = (b < a)"
| "fgt PInf PInf = False"
| "fgt PInf _ = True"
| "fgt NInf _ = False"
| "fgt (Fin a) NInf = True"
| "fgt (Fin a) PInf = False"

definition feq :: "npfloat \<Rightarrow> npfloat \<Rightarrow> bool" where
  "feq a b = (a \<noteq> NaN \<and> a = b)"

fun isfinite :: "npfloat \<Rightarrow> bool" where
  "isfinite (Fin a) = True"
| "isfinite _ = False"

text \<open>
  \<open>np.diff\<close> and \<open>np.mean\<close> of a list of scores. The mean of an empty array is
  \<open>nan\<close>; when an entry is not finite the sum, and so the mean, is the special value
  that the entries add up to, in whatever order they are added.
\<close>

definition diff_scores :: "numerics \<Rightarrow> npfloat list \<Rightarrow> npfloat list" where
  "diff_scores nm xs = map2 (fsub nm) (tl xs) xs"

fun fin_value :: "npfloat \<Rightarrow> real" where
  "fin_value (Fin a) = a"
| "fin_value _ = 0"

definition mean_scores :: "numerics \<Rightarrow> npfloat list \<Rightarrow> npfloat" where
  "mean_scores nm xs =
     (if xs = [] then NaN
      else if list_all isfinite xs then Fin (nm_mean nm (map fin_value xs))
      else fold fadd xs (Fin 0))"

text \<open>The literal \<open>1e-4\<close>: the double nearest to \<open>1 / 10000\<close>, just above it.\<close>

definition float_1e_4 :: real where
  "float_1e_4 = 7378697629483821 / 73786976294838206464"

section \<open>External collaborators\<close>

text \<open>
  The statistics, image-processing and centering routines come from scipy and
  scikit-learn; the model takes them as parameters. \<open>corrcoef a b\<close> stands for
  \<open>np.corrcoef(a, b)[1, 0]\<close> and \<open>spearmanr a b\<close> for \<open>stats.spearmanr(a, b)[0]\<close>;
  \<open>center_data\<close> returns the centered data with the feature means and the response mean.
\<close>

type_synonym mask = "bool list list list"

type_synonym volume = "real list list list"

record library =
  spearmanr :: "vec \<Rightarrow> vec \<Rightarrow> error + npfloat"
  corrcoef :: "vec \<Rightarrow> vec \<Rightarrow> error + npfloat"
  center_data :: "matrix \<Rightarrow> vec \<Rightarrow> error + (matrix \<times> vec \<times> vec \<times> real)"
  select_percentile :: "bool \<Rightarrow> real \<Rightarrow> matrix \<Rightarrow> vec \<Rightarrow> error + bool list"
  gaussian_filter :: "volume \<Rightarrow> real \<Rightarrow> volume"
  binary_erosion :: "mask \<Rightarrow> mask"
  binary_dilation :: "mask \<Rightarrow> mask"

text \<open>Sequencing of computations that may raise.\<close>

definition bind_err :: "error + 'a \<Rightarrow> ('a \<Rightarrow> error + 'b) \<Rightarrow> error + 'b" where
  "bind_err m f = (case m of Inl e \<Rightarrow> Inl e | Inr x \<Rightarrow> f x)"

section \<open>Early stopping (\<open>EarlyStoppingCallback\<close>)\<close>

record early_stopping_callback =
  es_X_test :: matrix
  es_y_test :: vec
  es_is_classif :: bool
  es_debias :: bool
  es_ymean :: real
  es_verbose :: int
  es_test_scores :: "npfloat list"
  es_counter :: int

text \<open>\<open>__init__\<close>: no score yet, the counter at zero.\<close>

definition EarlyStoppingCallback ::
  "matrix \<Rightarrow> vec \<Rightarrow> bool \<Rightarrow> bool \<Rightarrow> real \<Rightarrow> int \<Rightarrow> early_stopping_callback" where
  "EarlyStoppingCallback X_test y_test is_classif debias ymean verbose =
     \<lparr>es_X_test = X_test, es_y_test = y_test, es_is_classif = is_classif,
      es_debias = debias, es_ymean = ymean, es_verbose = verbose,
      es_test_scores = [], es_counter = 0\<rparr>"

text \<open>\<open>np.dot(X, w)\<close>: every row must have the length of \<open>w\<close>.\<close>

definition mat_vec :: "matrix \<Rightarrow> vec \<Rightarrow> error + vec" where
  "mat_vec X w =
     (if \<exists>row \<in> set X. length row \<noteq> length w then Inl ValueError
      else Inr (map (\<lambda>row. dot row w) X))"

text \<open>\<open>np.dot(a, b)\<close> of two vectors.\<close>

definition vec_dot :: "vec \<Rightarrow> vec \<Rightarrow> error + real" where
  "vec_dot a b = (if length a \<noteq> length b then Inl ValueError else Inr (dot a b))"

text \<open>\<open>w.ptp()\<close>: the range of the entries; an empty array has none.\<close>

fun ptp :: "vec \<Rightarrow> error + real" where
  "ptp [] = Inl ValueError"
| "ptp (x # xs) = Inr (fold max xs x - fold min xs x)"

definition test_score ::
  "library \<Rightarrow> early_stopping_callback \<Rightarrow> vec \<Rightarrow> error + (npfloat \<times> npfloat)" where
  "test_score lib self w0 =
     (let w = (if es_is_classif self then butlast w0 else w0) in
      bind_err (ptp w) (\<lambda>spread.
        if spread = 0 then Inr (NInf, NInf)
        else
          bind_err (mat_vec (es_X_test self) w) (\<lambda>y_pred.
          bind_err (spearmanr lib y_pred (es_y_test self)) (\<lambda>spearman_score.
          bind_err (corrcoef lib y_pred (es_y_test self)) (\<lambda>pearson_score.
            if es_is_classif self then Inr (spearman_score, pearson_score)
            else Inr (pearson_score, spearman_score))))))"

text \<open>\<open>xs[-n:]\<close>.\<close>

definition last_n :: "nat \<Rightarrow> 'a list \<Rightarrow> 'a list" where
  "last_n n xs = drop (length xs - n) xs"

text \<open>
  \<open>__call__\<close>: the result is \<open>None\<close> (no decision), \<open>True\<close> (stop) or \<open>False\<close>,
  together with the updated callback.
\<close>

definition call ::
  "library \<Rightarrow> numerics \<Rightarrow> early_stopping_callback \<Rightarrow> vec
     \<Rightarrow> error + (bool option \<times> early_stopping_callback)" where
  "call lib nm self0 w =
     (let self1 = self0\<lparr>es_counter := es_counter self0 + 1\<rparr>;
          self2 = (if es_counter self1 = 0 then self1\<lparr>es_test_scores := []\<rparr> else self1)
      in bind_err (test_score lib self2 w) (\<lambda>(score, _).
           let self3 = self2\<lparr>es_test_scores := es_test_scores self2 @ [score]\<rparr> in
           if \<not> (20 < es_counter self3 \<and> es_counter self3 mod 10 = 2) then Inr (None, self3)
           else if 4 < length (es_test_scores self3)
                   \<and> fge (mean_scores nm (diff_scores nm (rev (last_n 5 (es_test_scores self3)))))
                         (Fin (- float_1e_4))
                then Inr (Some True, self3)
                else Inr (Some False, self3)))"

text \<open>\<open>_debias\<close>: rescale \<open>w\<close> by \<open><y_pred, y_test> / ||y_pred||^2\<close> when that is defined.\<close>

definition debias_w :: "early_stopping_callback \<Rightarrow> vec \<Rightarrow> error + vec" where
  "debias_w self w =
     bind_err (mat_vec (es_X_test self) w) (\<lambda>y_pred.
       let scaling = dot y_pred y_pred in
       if 0 < scaling
       then bind_err (vec_dot y_pred (es_y_test self)) (\<lambda>d.
              Inr (map (\<lambda>t. t * (d / scaling)) w))
       else Inr w)"

text \<open>
  A solver invokes the callback once per iteration; \<open>run_calls\<close> feeds it the successive
  iterates and collects the answers.
\<close>

fun run_calls ::
  "library \<Rightarrow> numerics \<Rightarrow> early_stopping_callback \<Rightarrow> vec list
     \<Rightarrow> error + (bool option list \<times> early_stopping_callback)" where
  "run_calls lib nm self [] = Inr ([], self)"
| "run_calls lib nm self (w # ws) =
     bind_err (call lib nm self w) (\<lambda>(r, self').
     bind_err (run_calls lib nm self' ws) (\<lambda>(rs, self'').
       Inr (r # rs, self'')))"

text \<open>The answer of the \<open>k\<close>-th call of a fresh callback, from the scores recorded so far.\<close>

definition stop_answer :: "numerics \<Rightarrow> npfloat list \<Rightarrow> nat \<Rightarrow> bool option" where
  "stop_answer nm scores k =
     (if 20 < k \<and> k mod 10 = 2
      then Some (4 < length (take k scores)
                 \<and> fge (mean_scores nm (diff_scores nm (rev (last_n 5 (take k scores)))))
                       (Fin (- float_1e_4)))
      else None)"

text \<open>
  The stopping condition in the words of the specification: the mean first difference of
  the last five recorded scores, in the order they were recorded, is at least \<open>-1e-4\<close>.
\<close>

definition spec_stop_condition :: "numerics \<Rightarrow> npfloat list \<Rightarrow> bool" where
  "spec_stop_condition nm scores =
     (5 \<le> length scores
      \<and> fge (mean_scores nm (diff_scores nm (last_n 5 scores))) (Fin (- float_1e_4)))"

text \<open>
  The two correlation routines, over exact reals. \<open>np.corrcoef(a, b)[1, 0]\<close> is the
  covariance of the two vectors divided by the product of their standard deviations; it
  is \<open>nan\<close> when one of them is constant or there are fewer than two samples, and the
  two vectors must have the same length. \<open>stats.spearmanr(a, b)[0]\<close> is the same
  coefficient of the ranks of the entries, where equal entries share the mean of their
  ranks (\<open>stats.rankdata\<close>).
\<close>

definition pearson_correlation :: "vec \<Rightarrow> vec \<Rightarrow> error + npfloat" where
  "pearson_correlation a b =
     (if length a \<noteq> length b then Inl ValueError
      else
        let n = real (length a);
            mean_a = sum_list a / n;
            mean_b = sum_list b / n;
            s_ab = sum_list (map2 (\<lambda>x y. (x - mean_a) * (y - mean_b)) a b);
            s_aa = sum_list (map (\<lambda>x. (x - mean_a)\<^sup>2) a);
            s_bb = sum_list (map (\<lambda>y. (y - mean_b)\<^sup>2) b)
        in if length a < 2 \<or> s_aa = 0 \<or> s_bb = 0 then Inr NaN
           else Inr (Fin (s_ab / (sqrt s_aa * sqrt s_bb))))"

definition rankdata :: "vec \<Rightarrow> vec" where
  "rankdata xs =
     map (\<lambda>x. real (length (filter (\<lambda>t. t < x) xs))
               + (real (length (filter (\<lambda>t. t = x) xs)) + 1) / 2) xs"

definition spearman_correlation :: "vec \<Rightarrow> vec \<Rightarrow> error + npfloat" where
  "spearman_correlation a b = pearson_correlation (rankdata a) (rankdata b)"

text \<open>
  Collaborators for concrete runs: the two correlation routines above, no centering,
  every feature kept by the screening, and the identity as filter and morphological
  operator.
\<close>

definition no_centering :: "matrix \<Rightarrow> vec \<Rightarrow> error + (matrix \<times> vec \<times> vec \<times> real)" where
  "no_centering X y = Inr (X, y, replicate (n_features X) 0, 0)"

definition keep_all :: "bool \<Rightarrow> real \<Rightarrow> matrix \<Rightarrow> vec \<Rightarrow> error + bool list" where
  "keep_all is_classif percentile X y = Inr (replicate (n_features X) True)"

definition same_volume :: "volume \<Rightarrow> real \<Rightarrow> volume" where
  "same_volume v sigma = v"

definition same_mask :: "mask \<Rightarrow> mask" where
  "same_mask m = m"

definition example_library :: library where
  "example_library =
     \<lparr>spearmanr = spearman_correlation, corrcoef = pearson_correlation,
      center_data = no_centering, select_percentile = keep_all,
      gaussian_filter = same_volume, binary_erosion = same_mask,
      binary_dilation = same_mask\<rparr>"

text \<open>
  A second set of collaborators: the screening keeps the first feature only and the
  dilation sets every voxel.
\<close>

definition keep_first :: "bool \<Rightarrow> real \<Rightarrow> matrix \<Rightarrow> vec \<Rightarrow> error + bool list" where
  "keep_first is_classif percentile X y = Inr (True # replicate (n_features X - 1) False)"

definition grow_all :: "mask \<Rightarrow> mask" where
  "grow_all m = map (map (map (\<lambda>_. True))) m"

definition screening_library :: library where
  "screening_library =
     \<lparr>spearmanr = spearman_correlation, corrcoef = pearson_correlation,
      center_data = no_centering, select_percentile = keep_first,
      gaussian_filter = same_volume, binary_erosion = same_mask,
      binary_dilation = grow_all\<rparr>"

text \<open>
  A regression callback on four held-out samples of two features. The weights
  \<open>(3, 4)\<close> predict \<open>(3, -3, 4, -4)\<close>, whose Pearson correlation with the held-out
  response \<open>(4, -4, 3, -3)\<close> is \<open>24 / 25\<close>; the weights \<open>(4, 3)\<close> predict the
  response itself, with correlation 1.
\<close>

definition example_X_test :: matrix where
  "example_X_test = [[1, 0], [- 1, 0], [0, 1], [0, - 1]]"

definition example_y_test :: vec where
  "example_y_test = [4, - 4, 3, - 3]"

definition example_stopper :: early_stopping_callback where
  "example_stopper = EarlyStoppingCallback example_X_test example_y_test False False 0 0"

text \<open>Twenty-two iterates whose score rises at the last one: 21 times \<open>(3, 4)\<close>, then \<open>(4, 3)\<close>.\<close>

definition rising_iterates :: "vec list" where
  "rising_iterates = replicate 21 [3, 4] @ [[4, 3]]"

text \<open>Twenty-two iterates with the same score.\<close>

definition flat_iterates :: "vec list" where
  "flat_iterates = replicate 22 [3, 4]"

section \<open>The estimator (\<open>BaseSpaceNet\<close>)\<close>

text \<open>
  The constructor stores its arguments and calls \<open>check_params\<close>. The record holds the
  arguments that \<open>check_params\<close> and \<open>predict\<close> read; the others are stored unchecked.
  \<open>alpha\<close> and \<open>l1_ratio\<close> may be \<open>None\<close>, a number or any other Python value.
\<close>

datatype pyvalue = PyNone | PyNumber real | PyOther

record BaseSpaceNet =
  self_penalty :: string
  self_is_classif :: bool
  self_loss :: "string option"
  self_alpha :: pyvalue
  self_l1_ratio :: pyvalue
  self_screening_percentile :: real
  self_standardize :: bool
  self_debias :: bool

definition SUPPORTED_PENALTIES :: "string list" where
  "SUPPORTED_PENALTIES = [''smooth-lasso'', ''tv-l1'']"

definition SUPPORTED_LOSSES :: "string list" where
  "SUPPORTED_LOSSES = [''mse'', ''logistic'']"

text \<open>\<open>str.lower\<close> on ASCII letters.\<close>

definition lower_char :: "char \<Rightarrow> char" where
  "lower_char c =
     (let n = (of_char c :: nat) in if 65 \<le> n \<and> n \<le> 90 then char_of (n + 32) else c)"

definition lower :: "string \<Rightarrow> string" where
  "lower s = map lower_char s"

text \<open>\<open>value is None or isinstance(value, numbers.Number)\<close>.\<close>

fun none_or_number :: "pyvalue \<Rightarrow> bool" where
  "none_or_number PyOther = False"
| "none_or_number _ = True"

text \<open>
  \<open>check_params\<close> returns whether the warning about an \<open>l1_ratio\<close> of exactly 0 or 1
  was emitted. With \<open>l1_ratio = None\<close> the range test fails and formatting the message
  with \<open>%g\<close> raises a \<open>TypeError\<close>.
\<close>

definition check_params :: "'a BaseSpaceNet_scheme \<Rightarrow> error + bool" where
  "check_params self =
     (if \<not> none_or_number (self_alpha self) then Inl ValueError
      else if \<not> none_or_number (self_l1_ratio self) then Inl ValueError
      else
        (case self_l1_ratio self of
           PyNone \<Rightarrow> Inl TypeError
         | PyOther \<Rightarrow> Inl ValueError
         | PyNumber r \<Rightarrow>
             if \<not> (0 \<le> r \<and> r \<le> 1) then Inl ValueError
             else
               let warned = (r = 0 \<or> r = 1) in
               if \<not> (0 \<le> self_screening_percentile self
                      \<and> self_screening_percentile self \<le> 100)
               then Inl ValueError
               else if lower (self_penalty self) \<notin> set SUPPORTED_PENALTIES then Inl ValueError
               else
                 (case self_loss self of
                    None \<Rightarrow> Inr warned
                  | Some l \<Rightarrow>
                      if lower l \<notin> set SUPPORTED_LOSSES then Inl ValueError
                      else if \<not> self_is_classif self \<and> lower l = ''logistic''
                           then Inl ValueError
                           else Inr warned)))"

text \<open>\<open>__init__\<close>: the object exists only if \<open>check_params\<close> returns.\<close>

definition BaseSpaceNet_init ::
  "'a BaseSpaceNet_scheme \<Rightarrow> error + ('a BaseSpaceNet_scheme \<times> bool)" where
  "BaseSpaceNet_init self = bind_err (check_params self) (\<lambda>warned. Inr (self, warned))"

subsection \<open>Standardization and prediction\<close>

text \<open>
  \<open>_standardize_X\<close>: subtract the mean of each column and divide by its standard
  deviation (numpy's population standard deviation). An empty matrix has no mean and a
  constant column has standard deviation zero; numpy yields non-finite entries there.
\<close>

definition col_mean :: "matrix \<Rightarrow> nat \<Rightarrow> real" where
  "col_mean X j = sum_list (column X j) / real (length X)"

definition col_std :: "matrix \<Rightarrow> nat \<Rightarrow> real" where
  "col_std X j =
     sqrt (sum_list (map (\<lambda>x. (x - col_mean X j)\<^sup>2) (column X j)) / real (length X))"

definition standardize_X :: "matrix \<Rightarrow> error + (matrix \<times> vec \<times> vec)" where
  "standardize_X X =
     (let Xmean = map (col_mean X) [0..<n_features X];
          Xstd = map (col_std X) [0..<n_features X]
      in if X = [] \<or> (\<exists>s \<in> set Xstd. s = 0) then Inl NotFinite
         else Inr (map (\<lambda>row. map (\<lambda>j. (row ! j - Xmean ! j) / Xstd ! j) [0..<n_features X]) X,
                   Xmean, Xstd))"

text \<open>
  The fitted estimator: the constructor arguments, the masker, and the attributes set by
  \<open>fit\<close> (one row of \<open>coef_\<close> and one entry of \<open>intercept_\<close> per problem, the class
  labels, and the training-time mean and standard deviation of the features).
\<close>

record 'img fitted_SpaceNet = BaseSpaceNet +
  self_masker_transform :: "'img \<Rightarrow> matrix"
  self_coef :: matrix
  self_intercept :: vec
  self_classes :: "int list"
  self_Xmean :: vec
  self_Xstd :: vec

text \<open>
  \<open>safe_sparse_dot(X, coef_.T) + intercept_\<close>: one score per sample and problem. The
  intercept has one entry per problem, or a single entry that is broadcast.
\<close>

definition linear_scores :: "matrix \<Rightarrow> vec \<Rightarrow> matrix \<Rightarrow> error + matrix" where
  "linear_scores the_coef the_intercept X =
     (if (\<exists>row \<in> set X. \<exists>c \<in> set the_coef. length row \<noteq> length c) then Inl ValueError
      else if length the_intercept \<noteq> length the_coef \<and> length the_intercept \<noteq> 1
      then Inl ValueError
      else Inr (map (\<lambda>row. map (\<lambda>c. dot row (the_coef ! c)
                    + (if length the_intercept = 1 then the_intercept ! 0 else the_intercept ! c))
                  [0..<length the_coef]) X))"

definition decision_function ::
  "('img, 'a) fitted_SpaceNet_scheme \<Rightarrow> matrix \<Rightarrow> error + matrix" where
  "decision_function self X =
     (if \<not> self_is_classif self then linear_scores (self_coef self) (self_intercept self) X
      else if n_features X \<noteq> n_features (self_coef self) then Inl ValueError
      else linear_scores (self_coef self) (self_intercept self) X)"

text \<open>\<open>argmax\<close> of a row of scores: the first position of the maximum.\<close>

fun argmax :: "vec \<Rightarrow> error + nat" where
  "argmax [] = Inl ValueError"
| "argmax (x # xs) =
     Inr (fst (fold (\<lambda>t (best, bv, i). if bv < t then (i, t, i + 1) else (best, bv, i + 1))
                 xs (0, x, 1)))"

definition class_at :: "int list \<Rightarrow> nat \<Rightarrow> error + int" where
  "class_at cs i = (if i < length cs then Inr (cs ! i) else Inl IndexError)"

fun collect :: "(error + 'a) list \<Rightarrow> error + 'a list" where
  "collect [] = Inr []"
| "collect (m # ms) = bind_err m (\<lambda>x. bind_err (collect ms) (\<lambda>xs. Inr (x # xs)))"

datatype prediction = Values matrix | Labels "int list"

text \<open>The part of \<open>predict\<close> after masking and standardization.\<close>

definition predict_proper ::
  "('img, 'a) fitted_SpaceNet_scheme \<Rightarrow> matrix \<Rightarrow> error + prediction" where
  "predict_proper self X =
     (if \<not> self_is_classif self
      then bind_err (decision_function self X) (\<lambda>scores. Inr (Values scores))
      else
        bind_err (decision_function self X) (\<lambda>scores.
          let indices =
                (if length (self_coef self) = 1
                 then map (\<lambda>s. Inr (if 0 < s ! 0 then 1 else 0)) scores
                 else map argmax scores)
          in bind_err (collect indices) (\<lambda>idx.
             bind_err (collect (map (class_at (self_classes self)) idx)) (\<lambda>labels.
               Inr (Labels labels)))))"

definition predict :: "('img, 'a) fitted_SpaceNet_scheme \<Rightarrow> 'img \<Rightarrow> error + prediction" where
  "predict self imgs =
     (let X = self_masker_transform self imgs in
      if self_standardize self
      then bind_err (standardize_X X) (\<lambda>(X', Xmean, Xstd). predict_proper self X')
      else predict_proper self X)"

text \<open>A fitted regressor with one feature, weight 1 and intercept 0, on unmasked data.\<close>

definition identity_masker :: "matrix \<Rightarrow> matrix" where
  "identity_masker X = X"

definition example_regressor :: "matrix fitted_SpaceNet" where
  "example_regressor =
     \<lparr>self_penalty = ''smooth-lasso'', self_is_classif = False, self_loss = None,
      self_alpha = PyNone, self_l1_ratio = PyNumber (1 / 2), self_screening_percentile = 20,
      self_standardize = True, self_debias = False,
      self_masker_transform = identity_masker, self_coef = [[1]], self_intercept = [0],
      self_classes = [], self_Xmean = [0], self_Xstd = [1]\<rparr>"

section \<open>Masks\<close>

text \<open>
  A mask is a three-dimensional boolean array, the list of its planes, each the list of
  its rows. A voxel is active when its coordinates are inside the array and its entry is
  true.
\<close>

definition active :: "mask \<Rightarrow> nat \<Rightarrow> nat \<Rightarrow> nat \<Rightarrow> bool" where
  "active m i j k =
     (i < length m \<and> j < length (m ! i) \<and> k < length (m ! i ! j) \<and> m ! i ! j ! k)"

text \<open>\<open>np.where(mask)\<close>: the coordinates of the true entries, in C order.\<close>

definition where3 :: "mask \<Rightarrow> (nat \<times> nat \<times> nat) list" where
  "where3 m =
     concat (map (\<lambda>i.
       concat (map (\<lambda>j.
         map (\<lambda>k. (i, j, k)) (filter (\<lambda>k. m ! i ! j ! k) [0..<length (m ! i ! j)]))
         [0..<length (m ! i)]))
       [0..<length m])"

text \<open>\<open>xs[a:b]\<close> for non-negative bounds.\<close>

definition py_slice :: "nat \<Rightarrow> nat \<Rightarrow> 'a list \<Rightarrow> 'a list" where
  "py_slice a b xs = take (b - a) (drop a xs)"

text \<open>
  The bounds computed by \<open>_crop_mask\<close>: \<open>i_min = max(idx[0].min() - 1, 0)\<close>,
  \<open>i_max = idx[0].max()\<close>, and so on for the other two axes. The minimum of an empty
  index array raises.
\<close>

definition crop_bounds :: "mask \<Rightarrow> error + (nat \<times> nat \<times> nat \<times> nat \<times> nat \<times> nat)" where
  "crop_bounds m =
     (let idx = where3 m in
      if idx = [] then Inl ValueError
      else
        let i_min = max (Min (set (map fst idx)) - 1) 0;
            i_max = Max (set (map fst idx));
            j_min = max (Min (set (map (fst \<circ> snd) idx)) - 1) 0;
            j_max = Max (set (map (fst \<circ> snd) idx));
            k_min = max (Min (set (map (snd \<circ> snd) idx)) - 1) 0;
            k_max = Max (set (map (snd \<circ> snd) idx))
        in Inr (i_min, i_max, j_min, j_max, k_min, k_max))"

definition crop_mask :: "mask \<Rightarrow> error + mask" where
  "crop_mask m =
     bind_err (crop_bounds m) (\<lambda>(i_min, i_max, j_min, j_max, k_min, k_max).
       Inr (map (\<lambda>plane. map (\<lambda>row. py_slice k_min (k_max + 1) row)
                           (py_slice j_min (j_max + 1) plane))
              (py_slice i_min (i_max + 1) m)))"

subsection \<open>Boolean-mask indexing\<close>

definition same_shape3 :: "'a list list list \<Rightarrow> 'b list list list \<Rightarrow> bool" where
  "same_shape3 a b = list_all2 (list_all2 (\<lambda>r s. length r = length s)) a b"

definition ravel3 :: "'a list list list \<Rightarrow> 'a list" where
  "ravel3 a = concat (concat a)"

definition count_true :: "bool list \<Rightarrow> nat" where
  "count_true ms = length (filter (\<lambda>b. b) ms)"

text \<open>\<open>a[mask]\<close> on flat arrays and on volumes: the entries at the true positions.\<close>

definition take_masked :: "'a list \<Rightarrow> bool list \<Rightarrow> 'a list" where
  "take_masked a m = map fst (filter snd (zip a m))"

definition take_masked3 :: "'a list list list \<Rightarrow> mask \<Rightarrow> error + 'a list" where
  "take_masked3 a m =
     (if same_shape3 a m then Inr (take_masked (ravel3 a) (ravel3 m)) else Inl IndexError)"

text \<open>
  \<open>a[mask] = values\<close>: the values fill the true positions in order; there must be as
  many values as true positions, or a single value, which is broadcast.
\<close>

fun fill_masked :: "'a list \<Rightarrow> bool list \<Rightarrow> 'a list \<Rightarrow> 'a list" where
  "fill_masked (b # bs) (m # ms) vs =
     (if m then (case vs of [] \<Rightarrow> b # fill_masked bs ms [] | v # vs' \<Rightarrow> v # fill_masked bs ms vs')
      else b # fill_masked bs ms vs)"
| "fill_masked bs _ _ = bs"

definition put_masked :: "'a list \<Rightarrow> bool list \<Rightarrow> 'a list \<Rightarrow> error + 'a list" where
  "put_masked a m vs =
     (if length a \<noteq> length m then Inl IndexError
      else if length vs = count_true m then Inr (fill_masked a m vs)
      else if length vs = 1 then Inr (map2 (\<lambda>x b. if b then hd vs else x) a m)
      else Inl ValueError)"

fun chop :: "nat list \<Rightarrow> 'a list \<Rightarrow> 'a list list" where
  "chop [] xs = []"
| "chop (n # ns) xs = take n xs # chop ns (drop n xs)"

definition reshape_like3 :: "'b list list list \<Rightarrow> 'a list \<Rightarrow> 'a list list list" where
  "reshape_like3 t flat = chop (map length t) (chop (map length (concat t)) flat)"

definition put_masked3 ::
  "'a list list list \<Rightarrow> mask \<Rightarrow> 'a list \<Rightarrow> error + 'a list list list" where
  "put_masked3 a m vs =
     (if \<not> same_shape3 a m then Inl IndexError
      else bind_err (put_masked (ravel3 a) (ravel3 m) vs) (\<lambda>flat. Inr (reshape_like3 a flat)))"

text \<open>\<open>_unmask(w, mask)\<close>: a volume of zeros with \<open>w\<close> at the active voxels.\<close>

definition unmask :: "vec \<Rightarrow> mask \<Rightarrow> error + volume" where
  "unmask w m = put_masked3 (map (map (map (\<lambda>_. 0))) m) m w"

text \<open>\<open>mask_[np.logical_not(mask)] = 0\<close>.\<close>

definition clear_outside :: "mask \<Rightarrow> mask \<Rightarrow> error + mask" where
  "clear_outside a m =
     (if \<not> same_shape3 a m then Inl IndexError
      else Inr (map2 (map2 (map2 (\<lambda>x b. if \<not> b then False else x))) a m))"

text \<open>\<open>X[:, support]\<close> with a boolean \<open>support\<close>.\<close>

definition select_columns :: "matrix \<Rightarrow> bool list \<Rightarrow> error + matrix" where
  "select_columns X s =
     (if \<exists>row \<in> set X. length row \<noteq> length s then Inl IndexError
      else Inr (map (\<lambda>row. take_masked row s) X))"

section \<open>Univariate screening (\<open>_univariate_feature_screening\<close>)\<close>

definition univariate_feature_screening ::
  "library \<Rightarrow> matrix \<Rightarrow> vec \<Rightarrow> mask \<Rightarrow> bool \<Rightarrow> real \<Rightarrow> real
     \<Rightarrow> error + (matrix \<times> mask \<times> bool list)" where
  "univariate_feature_screening lib X y msk is_classif screening_percentile smooth =
     bind_err
       (if 0 < smooth
        then collect (map (\<lambda>sample.
               bind_err (unmask sample msk) (\<lambda>vol.
               bind_err (take_masked3 (gaussian_filter lib vol smooth) msk) (\<lambda>smoothed.
                 if length smoothed \<noteq> length sample then Inl ValueError
                 else Inr smoothed))) X)
        else Inr X) (\<lambda>sX.
     bind_err (select_percentile lib is_classif screening_percentile sX y) (\<lambda>support.
     bind_err (put_masked3 msk msk support) (\<lambda>mask1.
     let mask2 = binary_dilation lib (binary_erosion lib mask1) in
     bind_err (clear_outside mask2 msk) (\<lambda>mask3.
     bind_err (take_masked3 mask3 msk) (\<lambda>support'.
     bind_err (select_columns X support') (\<lambda>X'.
       Inr (X', mask3, support')))))))"

section \<open>The path driver (\<open>path_scores\<close>)\<close>

text \<open>
  A solver takes the training data, \<open>alpha\<close>, \<open>l1_ratio\<close>, the mask, the warm-start
  state (\<open>None\<close> at first) and an optional callback, and returns the weights with a new
  warm-start state; its tolerance and iteration budget are part of the function.
\<close>

type_synonym 'i solver =
  "matrix \<Rightarrow> vec \<Rightarrow> real \<Rightarrow> real \<Rightarrow> mask \<Rightarrow> 'i option \<Rightarrow> early_stopping_callback option
     \<Rightarrow> error + (vec \<times> 'i)"

text \<open>\<open>xs[idx]\<close> for a list of positions.\<close>

definition take_rows :: "'a list \<Rightarrow> nat list \<Rightarrow> error + 'a list" where
  "take_rows xs idx =
     (if \<exists>i \<in> set idx. length xs \<le> i then Inl IndexError else Inr (map (\<lambda>i. xs ! i) idx))"

text \<open>
  Screening, cropping, the train/test split, centering and the descending alpha grid:
  everything \<open>path_scores\<close> does before the alpha path. \<open>alphas[0]\<close> needs a non-empty
  grid.
\<close>

definition path_setup ::
  "library \<Rightarrow> numerics \<Rightarrow> matrix \<Rightarrow> vec \<Rightarrow> mask \<Rightarrow> vec option \<Rightarrow> real \<Rightarrow> nat list
     \<Rightarrow> nat list \<Rightarrow> int \<Rightarrow> real \<Rightarrow> bool \<Rightarrow> real
     \<Rightarrow> error + (matrix \<times> vec \<times> matrix \<times> vec \<times> mask \<times> bool list option \<times> vec)" where
  "path_setup lib nm X y msk alphas l1_ratio train test n_alphas eps is_classif
       screening_percentile =
     (let do_screening = (100 < n_features X \<and> screening_percentile < 100) in
      bind_err
        (if do_screening
         then bind_err (univariate_feature_screening lib X y msk is_classif
                          screening_percentile 2)
                (\<lambda>(X', mask', support). Inr (X', mask', Some support))
         else Inr (X, msk, None)) (\<lambda>(X1, mask1, support).
      bind_err (crop_mask mask1) (\<lambda>mask2.
      bind_err (take_rows X1 train) (\<lambda>X_train0.
      bind_err (take_rows y train) (\<lambda>y_train0.
      bind_err (take_rows X1 test) (\<lambda>X_test.
      bind_err (take_rows y test) (\<lambda>y_test.
      bind_err (center_data lib X_train0 y_train0) (\<lambda>(X_train, y_train, X_mean, y_mean).
      bind_err
        (case alphas of
           None \<Rightarrow> space_net_alpha_grid nm X_train y_train eps n_alphas l1_ratio is_classif
         | Some a \<Rightarrow> Inr a) (\<lambda>alphas1.
      let alphas2 = rev (sort alphas1) in
      if alphas2 = [] then Inl IndexError
      else Inr (X_train, y_train, X_test, y_test, mask2, support, alphas2))))))))))"

text \<open>The variables of the alpha path.\<close>

record 'i path_state =
  st_init :: "'i option"
  st_test_scores :: "npfloat list"
  st_best_score :: npfloat
  st_best_secundary_score :: npfloat
  st_best_alpha :: real
  st_best_init :: "'i option"
  st_early_stopper :: "early_stopping_callback option"

text \<open>
  One pass of the loop over the alphas. \<open>solve\<close> is the solver on the training data and
  \<open>fresh\<close> the callback as constructed for each alpha. The solver calls the callback,
  but \<open>test_score\<close> and \<open>_debias\<close> read only the fields set at construction.
\<close>

definition score_alpha ::
  "library \<Rightarrow> (real \<Rightarrow> 'i option \<Rightarrow> early_stopping_callback option \<Rightarrow> error + (vec \<times> 'i))
     \<Rightarrow> early_stopping_callback \<Rightarrow> 'i path_state \<Rightarrow> real \<Rightarrow> error + 'i path_state" where
  "score_alpha lib solve fresh st alpha =
     (let early_stopper = fresh in
      bind_err (solve alpha (st_init st) (Some early_stopper)) (\<lambda>(w, init).
      bind_err (test_score lib early_stopper w) (\<lambda>(score, secundary_score).
        let st1 = st\<lparr>st_init := Some init,
                      st_test_scores := st_test_scores st @ [score],
                      st_early_stopper := Some early_stopper\<rparr>
        in Inr (if isfinite score
                   \<and> (fgt score (st_best_score st1)
                       \<or> (feq score (st_best_score st1)
                           \<and> fgt secundary_score (st_best_secundary_score st1)))
                then st1\<lparr>st_best_secundary_score := secundary_score,
                         st_best_score := score,
                         st_best_alpha := alpha,
                         st_best_init := Some init\<rparr>
                else st1))))"

fun alpha_loop ::
  "library \<Rightarrow> (real \<Rightarrow> 'i option \<Rightarrow> early_stopping_callback option \<Rightarrow> error + (vec \<times> 'i))
     \<Rightarrow> early_stopping_callback \<Rightarrow> 'i path_state \<Rightarrow> real list \<Rightarrow> error + 'i path_state" where
  "alpha_loop lib solve fresh st [] = Inr st"
| "alpha_loop lib solve fresh st (alpha # alphas) =
     bind_err (score_alpha lib solve fresh st alpha) (\<lambda>st'.
       alpha_loop lib solve fresh st' alphas)"

text \<open>
  Undoing the screening: \<open>w_ = np.zeros(len(support))\<close>, then \<open>w_[support] = best_w\<close>,
  with the intercept (the last entry) kept apart for classification.
\<close>

definition unscreen :: "bool list \<Rightarrow> bool \<Rightarrow> vec \<Rightarrow> error + vec" where
  "unscreen support is_classif best_w =
     (let w0 = replicate (length support) 0 in
      if is_classif
      then (if best_w = [] then Inl IndexError
            else bind_err (put_masked w0 support (butlast best_w)) (\<lambda>w1.
                   Inr (w1 @ [last best_w])))
      else put_masked w0 support best_w)"

text \<open>
  The end of \<open>path_scores\<close>: undo the screening, and append the intercept
  \<open>ymean - np.dot(Xmean, best_w)\<close> when the weights have one entry per feature.
\<close>

definition finish_weights ::
  "bool list option \<Rightarrow> bool \<Rightarrow> nat \<Rightarrow> vec option \<Rightarrow> real \<Rightarrow> vec \<Rightarrow> error + vec" where
  "finish_weights support is_classif p Xmean ymean best_w =
     bind_err (case support of None \<Rightarrow> Inr best_w | Some s \<Rightarrow> unscreen s is_classif best_w)
       (\<lambda>w1.
          if length w1 = p
          then bind_err (vec_dot (case Xmean of None \<Rightarrow> replicate p 0 | Some m \<Rightarrow> m) w1)
                 (\<lambda>d. Inr (w1 @ [ymean - d]))
          else Inr w1)"

text \<open>
  \<open>path_scores\<close>. The name \<open>early_stopper\<close> is bound only inside the loop, so debiasing
  without a test set raises an \<open>UnboundLocalError\<close>, which is a \<open>NameError\<close>.
\<close>

definition path_scores ::
  "library \<Rightarrow> numerics \<Rightarrow> 'i solver \<Rightarrow> matrix \<Rightarrow> vec \<Rightarrow> mask \<Rightarrow> vec option \<Rightarrow> real
     \<Rightarrow> nat list \<Rightarrow> nat list \<Rightarrow> int \<Rightarrow> real \<Rightarrow> bool \<Rightarrow> 'i option \<Rightarrow> 'k \<Rightarrow> bool
     \<Rightarrow> vec option \<Rightarrow> real \<Rightarrow> real \<Rightarrow> int
     \<Rightarrow> error + (npfloat list \<times> vec \<times> real \<times> 'k)" where
  "path_scores lib nm solver X y msk alphas l1_ratio train test n_alphas eps is_classif init
       key debias Xmean ymean screening_percentile verbose =
     bind_err (path_setup lib nm X y msk alphas l1_ratio train test n_alphas eps is_classif
                 screening_percentile)
       (\<lambda>(X_train, y_train, X_test, y_test, mask2, support, alphas2).
     let solve = (\<lambda>alpha i cb. solver X_train y_train alpha l1_ratio mask2 i cb);
         st0 = \<lparr>st_init = init, st_test_scores = [], st_best_score = NInf,
                st_best_secundary_score = NInf, st_best_alpha = hd alphas2,
                st_best_init = init, st_early_stopper = None\<rparr>
     in
     bind_err
       (if 0 < length test
        then alpha_loop lib solve
               (EarlyStoppingCallback X_test y_test is_classif debias ymean verbose) st0 alphas2
        else Inr st0) (\<lambda>st.
     bind_err (solve (st_best_alpha st) (st_best_init st) None) (\<lambda>(best_w, init').
     bind_err
       (if debias
        then (case st_early_stopper st of
                None \<Rightarrow> Inl NameError
              | Some early_stopper \<Rightarrow> debias_w early_stopper best_w)
        else Inr best_w) (\<lambda>best_w1.
     let test_scores = (if length test = 0 then st_test_scores st @ [NaN]
                        else st_test_scores st)
     in
     bind_err (finish_weights support is_classif (n_features X) Xmean ymean best_w1)
       (\<lambda>best_w2. Inr (test_scores, best_w2, st_best_alpha st, key))))))"

text \<open>
  A solver for concrete runs: every weight equals \<open>alpha\<close>, with \<open>extra\<close> entries
  beyond the features (one for the intercept of a classifier).
\<close>

definition flat_solver :: "nat \<Rightarrow> unit solver" where
  "flat_solver extra X y alpha l1_ratio msk init callback =
     Inr (replicate (n_features X + extra) alpha, ())"

text \<open>
  A second solver for concrete runs: the first weight is \<open>alpha\<close>, the others are zero.
  \<open>example_solve\<close> is this solver on two training samples with two features, and
  \<open>example_state\<close> a state of the alpha path before any alpha was scored.
\<close>

definition spike_solver :: "unit solver" where
  "spike_solver X y alpha l1_ratio msk init callback =
     Inr (alpha # replicate (n_features X - 1) 0, ())"

definition example_solve ::
  "real \<Rightarrow> unit option \<Rightarrow> early_stopping_callback option \<Rightarrow> error + (vec \<times> unit)" where
  "example_solve alpha i cb = spike_solver [[1, 0], [2, 1]] [1, 2] alpha (1 / 2) [[[True, True]]] i cb"

definition example_state :: "unit path_state" where
  "example_state =
     \<lparr>st_init = None, st_test_scores = [], st_best_score = NInf,
      st_best_secundary_score = NInf, st_best_alpha = 5, st_best_init = None,
      st_early_stopper = None\<rparr>"

section \<open>Properties of the alpha grid\<close>

lemma fold_max_abs_nonneg: "(0::real) \<le> m \<Longrightarrow> 0 \<le> fold (\<lambda>t m. max \<bar>t\<bar> m) xs m"
proof (induction xs arbitrary: m)
  case Nil
  then show ?case by simp
next
  case (Cons x xs)
  have "0 \<le> max \<bar>x\<bar> m" by simp
  then show ?case using Cons.IH by simp
qed

lemma abs_max_nonneg: "abs_max v = Inr a \<Longrightarrow> 0 \<le> a"
proof (cases v)
  case Nil
  then show "abs_max v = Inr a \<Longrightarrow> 0 \<le> a" by simp
next
  case (Cons x xs)
  have "0 \<le> fold (\<lambda>t m. max \<bar>t\<bar> m) xs \<bar>x\<bar>"
    by (rule fold_max_abs_nonneg) simp
  then show "abs_max v = Inr a \<Longrightarrow> 0 \<le> a" using Cons by simp
qed

lemma abs_max_Inr_nonempty: "abs_max v = Inr a \<Longrightarrow> v \<noteq> []"
  by (cases v) simp_all

lemma max_abs_XT_dot_Inr:
  assumes "max_abs_XT_dot nm X v = Inr a"
  shows "X \<noteq> [] \<and> 0 \<le> a"
proof -
  from assms obtain c where c: "XT_dot nm X v = Inr c" and a: "abs_max c = Inr a"
    by (cases "XT_dot nm X v") (simp_all add: max_abs_XT_dot_def)
  from c have "length c = n_features X"
    by (cases "length v \<noteq> n_samples X") (auto simp: XT_dot_def)
  moreover have "c \<noteq> []" using a by (rule abs_max_Inr_nonempty)
  ultimately have "X \<noteq> []" by (auto simp: n_features_def)
  then show ?thesis using abs_max_nonneg[OF a] by simp
qed

lemma alpha_max_bound_Inr:
  assumes "alpha_max_bound nm X y logistic = Inr a"
  shows "X \<noteq> [] \<and> 0 \<le> a"
proof (cases logistic)
  case False
  then show ?thesis using assms max_abs_XT_dot_Inr[of nm X y a] by (simp add: alpha_max_bound_def)
next
  case True
  then obtain b where b: "pseudo_residual nm y = Inr b"
    using assms by (cases "pseudo_residual nm y") (simp_all add: alpha_max_bound_def)
  then obtain a0 where a0: "max_abs_XT_dot nm X b = Inr a0"
    using assms True by (cases "max_abs_XT_dot nm X b") (simp_all add: alpha_max_bound_def)
  show ?thesis
  proof (cases "a0 = 0")
    case True
    then have "max_abs_XT_dot nm X y = Inr a"
      using assms \<open>logistic\<close> b a0 by (simp add: alpha_max_bound_def)
    then show ?thesis by (rule max_abs_XT_dot_Inr)
  next
    case False
    then have "a = a0" using assms \<open>logistic\<close> b a0 by (simp add: alpha_max_bound_def)
    then show ?thesis using max_abs_XT_dot_Inr[OF a0] by simp
  qed
qed

text \<open>
  Claim C3, as amended. The bound is divided by \<open>n_samples * l1_ratio\<close>, where only an
  \<open>l1_ratio\<close> of exactly zero is replaced by \<open>1e-3\<close>; this is what a grid of one
  alpha returns. The divisor is \<open>n_samples * max(l1_ratio, 1e-3)\<close> when \<open>l1_ratio\<close> is
  zero or at least \<open>1e-3\<close>.
\<close>

theorem alpha_max_divisor:
  assumes "alpha_max_bound nm X y logistic = Inr a" and "0 \<le> l1_ratio" and "l1_ratio \<le> 1"
  shows "computed_alpha_max nm X y l1_ratio logistic =
           Inr (a / (real (n_samples X) * (if l1_ratio = 0 then 1 / 1000 else l1_ratio)))
       \<and> space_net_alpha_grid nm X y eps 1 l1_ratio logistic =
           Inr [a / (real (n_samples X) * (if l1_ratio = 0 then 1 / 1000 else l1_ratio))]
       \<and> (l1_ratio = 0 \<or> 1 / 1000 \<le> l1_ratio \<longrightarrow>
            (if l1_ratio = 0 then 1 / 1000 else l1_ratio) = max l1_ratio (1 / 1000))"
proof -
  have "X \<noteq> []" using alpha_max_bound_Inr[OF assms(1)] by simp
  then have "real (n_samples X) \<noteq> 0" by (simp add: n_samples_def)
  then show ?thesis using assms
    by (simp add: computed_alpha_max_def rescale_alpha_max_def space_net_alpha_grid_def Let_def)
qed

lemma alpha_max_bound_example: "alpha_max_bound exact_arithmetic [[1]] [1] False = Inr 1"
  by (simp add: alpha_max_bound_def max_abs_XT_dot_def XT_dot_def n_samples_def n_features_def
      dot_def column_def exact_arithmetic_def)

theorem alpha_max_divisor_witness:
  "computed_alpha_max exact_arithmetic [[1]] [1] (1 / 10000) False = Inr 10000
   \<and> space_net_alpha_grid exact_arithmetic [[1]] [1] (1 / 10) 1 (1 / 10000) False = Inr [10000]"
  using alpha_max_divisor[of exact_arithmetic "[[1]]" "[1]" False 1 "1 / 10000" "1 / 10"]
    alpha_max_bound_example
  by (simp add: n_samples_def)

text \<open>
  Claim C3 as stated fails for an \<open>l1_ratio\<close> strictly between 0 and \<open>1e-3\<close>: at
  \<open>l1_ratio = 1e-4\<close> and one sample the divisor is \<open>1e-4\<close>, not \<open>1e-3\<close>.
\<close>

theorem alpha_max_divisor_counterexample:
  "(0::real) < 1 / 10000 \<and> (1 / 10000 :: real) < 1 / 1000
   \<and> alpha_max_bound exact_arithmetic [[1]] [1] False = Inr 1
   \<and> computed_alpha_max exact_arithmetic [[1]] [1] (1 / 10000) False
        \<noteq> Inr (1 / (real (n_samples [[1]]) * max (1 / 10000) (1 / 1000)))"
  by (simp add: alpha_max_bound_example computed_alpha_max_def rescale_alpha_max_def n_samples_def)











text \<open>A computed bound other than zero is kept: there is no fallback then.\<close>

lemma logistic_bound_kept:
  assumes "pseudo_residual nm y = Inr b" and "max_abs_XT_dot nm X b = Inr a" and "a \<noteq> 0"
  shows "alpha_max_bound nm X y True = Inr a"
  using assms by (simp add: alpha_max_bound_def)





section \<open>The gradient and the divergence are negative adjoints\<close>

lemma indices_range:
  "idx \<in> set (indices s) \<Longrightarrow> length idx = length s \<and> (\<forall>k<length s. idx ! k < s ! k)"
proof (induction s arbitrary: idx)
  case Nil
  then show ?case by simp
next
  case (Cons n ns)
  from Cons.prems obtain i r where i: "i < n" and r: "r \<in> set (indices ns)" and idx: "idx = i # r"
    by auto
  have ih: "length r = length ns \<and> (\<forall>k<length ns. r ! k < ns ! k)"
    using Cons.IH[OF r] .
  show ?case
  proof (intro conjI allI impI)
    show "length idx = length (n # ns)" using ih idx by simp
  next
    fix k assume "k < length (n # ns)"
    then show "idx ! k < (n # ns) ! k"
      using ih i idx by (cases k) simp_all
  qed
qed

lemma sum_list_concat_real: "sum_list (concat xss) = sum_list (map sum_list xss :: real list)"
  by (induction xss) simp_all

lemma sum_list_map_uminus: "sum_list (map (\<lambda>x. - f x) xs) = - sum_list (map f xs :: real list)"
  by (induction xs) simp_all

lemma sum_list_indices_Cons:
  "sum_list (map F (indices (n # ns)))
     = (\<Sum>i<n. sum_list (map (\<lambda>r. F (i # r)) (indices ns)) :: real)"
proof -
  have "sum_list (map F (indices (n # ns)))
      = sum_list (map (\<lambda>i. sum_list (map (\<lambda>r. F (i # r)) (indices ns))) [0..<n])"
    by (simp add: map_concat sum_list_concat_real o_def)
  also have "\<dots> = (\<Sum>i<n. sum_list (map (\<lambda>r. F (i # r)) (indices ns)))"
    by (simp add: interv_sum_list_conv_sum_set_nat atLeast0LessThan)
  finally show ?thesis .
qed

lemma sum_sum_list_swap:
  "(\<Sum>i<n. sum_list (map (f i) xs)) = sum_list (map (\<lambda>r. \<Sum>i<n. f i r) xs :: real list)"
  by (induction xs) (simp_all add: sum.distrib)

lemma sum_list_cong_set:
  "(\<And>x. x \<in> set xs \<Longrightarrow> f x = g x) \<Longrightarrow> sum_list (map f xs) = sum_list (map g xs)"
  by (induction xs) simp_all

lemma sum_by_parts:
  "(\<Sum>i<(n::nat). if i + 1 < n then (a (i + 1) - a i) * b i else 0)
     = - (\<Sum>i<n. a i * ((if i + 1 < n then b i else 0) - (if 1 \<le> i then b (i - 1) else 0)) :: real)"
proof (cases n)
  case 0
  then show ?thesis by simp
next
  case (Suc m)
  have l: "(\<Sum>i<Suc m. if i + 1 < Suc m then (a (i + 1) - a i) * b i else 0)
         = (\<Sum>i<m. (a (i + 1) - a i) * b i)"
    by simp
  have r1: "(\<Sum>i<Suc m. a i * (if i + 1 < Suc m then b i else 0)) = (\<Sum>i<m. a i * b i)"
    by simp
  have r2: "(\<Sum>i<Suc m. a i * (if 1 \<le> i then b (i - 1) else 0)) = (\<Sum>i<m. a (i + 1) * b i)"
    by (subst sum.lessThan_Suc_shift) simp
  have "(\<Sum>i<Suc m. a i * ((if i + 1 < Suc m then b i else 0) - (if 1 \<le> i then b (i - 1) else 0)))
      = (\<Sum>i<Suc m. a i * (if i + 1 < Suc m then b i else 0))
        - (\<Sum>i<Suc m. a i * (if 1 \<le> i then b (i - 1) else 0))"
    by (simp only: right_diff_distrib sum_subtractf)
  also have "\<dots> = (\<Sum>i<m. a i * b i) - (\<Sum>i<m. a (i + 1) * b i)"
    by (simp only: r1 r2)
  also have "\<dots> = - (\<Sum>i<m. (a (i + 1) - a i) * b i)"
    by (simp add: left_diff_distrib sum_subtractf)
  finally show ?thesis using l Suc by simp
qed

lemma axis_by_parts:
  "k < length s \<Longrightarrow>
   sum_list (map (\<lambda>idx. if idx ! k + 1 < s ! k
                          then (u (idx[k := idx ! k + 1]) - u idx) * g idx else 0) (indices s))
   = - sum_list (map (\<lambda>idx. u idx * ((if idx ! k + 1 < s ! k then g idx else 0)
                         - (if 1 \<le> idx ! k then g (idx[k := idx ! k - 1]) else 0))) (indices s) :: real list)"
proof (induction s arbitrary: k u g)
  case Nil
  then show ?case by simp
next
  case (Cons n ns)
  show ?case
  proof (cases k)
    case 0
    have "sum_list (map (\<lambda>idx. if idx ! k + 1 < (n # ns) ! k
                          then (u (idx[k := idx ! k + 1]) - u idx) * g idx else 0) (indices (n # ns)))
        = (\<Sum>i<n. sum_list (map (\<lambda>r. if i + 1 < n then (u ((i + 1) # r) - u (i # r)) * g (i # r) else 0)
              (indices ns)))"
      by (subst sum_list_indices_Cons) (simp add: 0 cong: if_cong)
    also have "\<dots> = sum_list (map (\<lambda>r. \<Sum>i<n. if i + 1 < n
              then (u ((i + 1) # r) - u (i # r)) * g (i # r) else 0) (indices ns))"
      by (rule sum_sum_list_swap)
    also have "\<dots> = sum_list (map (\<lambda>r. - (\<Sum>i<n. u (i # r) * ((if i + 1 < n then g (i # r) else 0)
              - (if 1 \<le> i then g ((i - 1) # r) else 0)))) (indices ns))"
      by (simp only: sum_by_parts[where a = "\<lambda>i. u (i # r)" and b = "\<lambda>i. g (i # r)" for r])
    also have "\<dots> = - sum_list (map (\<lambda>r. \<Sum>i<n. u (i # r) * ((if i + 1 < n then g (i # r) else 0)
              - (if 1 \<le> i then g ((i - 1) # r) else 0))) (indices ns))"
      by (rule sum_list_map_uminus)
    also have "\<dots> = - (\<Sum>i<n. sum_list (map (\<lambda>r. u (i # r) * ((if i + 1 < n then g (i # r) else 0)
              - (if 1 \<le> i then g ((i - 1) # r) else 0))) (indices ns)))"
      by (simp only: sum_sum_list_swap)
    also have "\<dots> = - sum_list (map (\<lambda>idx. u idx * ((if idx ! k + 1 < (n # ns) ! k then g idx else 0)
                         - (if 1 \<le> idx ! k then g (idx[k := idx ! k - 1]) else 0))) (indices (n # ns)))"
      by (subst sum_list_indices_Cons) (simp add: 0 cong: if_cong)
    finally show ?thesis .
  next
    case (Suc k')
    then have k': "k' < length ns" using Cons.prems by simp
    have "sum_list (map (\<lambda>idx. if idx ! k + 1 < (n # ns) ! k
                          then (u (idx[k := idx ! k + 1]) - u idx) * g idx else 0) (indices (n # ns)))
        = (\<Sum>i<n. sum_list (map (\<lambda>r. if r ! k' + 1 < ns ! k'
              then (u (i # r[k' := r ! k' + 1]) - u (i # r)) * g (i # r) else 0) (indices ns)))"
      by (subst sum_list_indices_Cons) (simp add: Suc cong: if_cong)
    also have "\<dots> = (\<Sum>i<n. - sum_list (map (\<lambda>r. u (i # r) * ((if r ! k' + 1 < ns ! k' then g (i # r) else 0)
              - (if 1 \<le> r ! k' then g (i # r[k' := r ! k' - 1]) else 0))) (indices ns)))"
      by (simp only: Cons.IH[OF k', where u = "\<lambda>r. u (i # r)" and g = "\<lambda>r. g (i # r)" for i])
    also have "\<dots> = - (\<Sum>i<n. sum_list (map (\<lambda>r. u (i # r) * ((if r ! k' + 1 < ns ! k' then g (i # r) else 0)
              - (if 1 \<le> r ! k' then g (i # r[k' := r ! k' - 1]) else 0))) (indices ns)))"
      by (simp only: sum_negf)
    also have "\<dots> = - sum_list (map (\<lambda>idx. u idx * ((if idx ! k + 1 < (n # ns) ! k then g idx else 0)
                         - (if 1 \<le> idx ! k then g (idx[k := idx ! k - 1]) else 0))) (indices (n # ns)))"
      by (subst sum_list_indices_Cons) (simp add: Suc cong: if_cong)
    finally show ?thesis .
  qed
qed

lemma assign_diff_shape: "shape (assign_diff g d D) = shape g"
  by (simp add: assign_diff_def)

lemma assign_diff_entry:
  "entry (assign_diff g d D) (k # idx)
     = (if k = d \<and> idx ! d + 1 < shape g ! (d + 1) then entry D idx else entry g (k # idx))"
  by (simp add: assign_diff_def)

lemma np_diff_entry: "entry (np_diff img d) i = entry img (i[d := i ! d + 1]) - entry img i"
  by (simp add: np_diff_def)

lemma grad_loop_shape:
  "shape (fold (\<lambda>d g. assign_diff g d (np_diff img d)) ds z) = shape z"
  by (induction ds arbitrary: z) (simp_all add: assign_diff_shape)

lemma grad_loop_entry:
  "entry (fold (\<lambda>d g. assign_diff g d (np_diff img d)) [0..<n] (zeros sh)) (k # idx)
     = (if k < n \<and> idx ! k + 1 < sh ! (k + 1)
        then entry img (idx[k := idx ! k + 1]) - entry img idx else 0)"
proof (induction n arbitrary: k)
  case 0
  then show ?case by (simp add: zeros_def)
next
  case (Suc n)
  have sh: "shape (fold (\<lambda>d g. assign_diff g d (np_diff img d)) [0..<n] (zeros sh)) = sh"
    by (simp add: grad_loop_shape zeros_def)
  show ?case
  proof (cases "k = n")
    case True
    then show ?thesis by (simp add: assign_diff_entry sh np_diff_entry Suc.IH)
  next
    case False
    then have "k < Suc n \<longleftrightarrow> k < n" by auto
    then show ?thesis using False by (simp add: assign_diff_entry sh Suc.IH)
  qed
qed

lemma div_axis_shape: "shape (div_axis grad d res) = shape res"
  by (simp add: div_axis_def sub_last_def sub_shifted_def add_front_def Let_def)

lemma div_axis_entry:
  assumes "i ! d < shape res ! d"
  shows "entry (div_axis grad d res) i
     = entry res i + ((if i ! d + 1 < shape res ! d then entry grad (d # i) else 0)
                      - (if 1 \<le> i ! d then entry grad (d # i[d := i ! d - 1]) else 0))"
proof -
  consider "i ! d + 1 < shape res ! d" | "shape res ! d = Suc (i ! d)"
    using assms by linarith
  then show ?thesis
  proof cases
    case 1
    then have "i ! d \<noteq> shape res ! d - 1" by simp
    then show ?thesis using 1
      by (simp add: div_axis_def sub_last_def sub_shifted_def add_front_def Let_def sub_array_def)
  next
    case 2
    show ?thesis
      by (simp add: div_axis_def sub_last_def sub_shifted_def add_front_def Let_def sub_array_def
          2 numeral_2_eq_2)
  qed
qed

lemma div_loop_shape: "shape (fold (div_axis grad) ds z) = shape z"
  by (induction ds arbitrary: z) (simp_all add: div_axis_shape)

lemma div_loop_entry:
  "(\<forall>d<n. i ! d < sh ! d) \<Longrightarrow>
   entry (fold (div_axis grad) [0..<n] (zeros sh)) i
     = (\<Sum>d<n. (if i ! d + 1 < sh ! d then entry grad (d # i) else 0)
                - (if 1 \<le> i ! d then entry grad (d # i[d := i ! d - 1]) else 0))"
proof (induction n)
  case 0
  then show ?case by (simp add: zeros_def)
next
  case (Suc n)
  have sh: "shape (fold (div_axis grad) [0..<n] (zeros sh)) = sh"
    by (simp add: div_loop_shape zeros_def)
  have i: "i ! n < sh ! n" using Suc.prems by simp
  have ih: "entry (fold (div_axis grad) [0..<n] (zeros sh)) i
     = (\<Sum>d<n. (if i ! d + 1 < sh ! d then entry grad (d # i) else 0)
                - (if 1 \<le> i ! d then entry grad (d # i[d := i ! d - 1]) else 0))"
    using Suc by simp
  show ?case
    using div_axis_entry[of i n "fold (div_axis grad) [0..<n] (zeros sh)" grad] i
    by (simp add: sh ih)
qed

lemma gradient_id_Inr:
  assumes "0 \<le> r" "r \<le> 1"
  shows "\<exists>G. gradient_id u r = Inr G \<and> shape G = (ndim u + 1) # shape u
     \<and> (\<forall>k idx. k \<le> ndim u \<longrightarrow> entry G (k # idx)
          = (if k < ndim u
             then (1 - r) * (if idx ! k + 1 < shape u ! k
                             then entry u (idx[k := idx ! k + 1]) - entry u idx else 0)
             else r * entry u idx))"
proof -
  define L where "L = fold (\<lambda>d g. assign_diff g d (np_diff u d)) [0..<ndim u]
                         (zeros ((ndim u + 1) # shape u))"
  have shL: "shape L = (ndim u + 1) # shape u"
    by (simp add: L_def grad_loop_shape zeros_def)
  define G where "G = assign_last (scale_but_last L (1 - r)) (scale r u)"
  have G: "gradient_id u r = Inr G"
    using assms by (simp add: gradient_id_def Let_def G_def L_def)
  have shG: "shape G = (ndim u + 1) # shape u"
    by (simp add: G_def assign_last_def scale_but_last_def shL)
  have ent: "entry G (k # idx)
          = (if k < ndim u
             then (1 - r) * (if idx ! k + 1 < shape u ! k
                             then entry u (idx[k := idx ! k + 1]) - entry u idx else 0)
             else r * entry u idx)" if "k \<le> ndim u" for k idx
  proof (cases "k < ndim u")
    case True
    then have "entry G (k # idx) = (1 - r) * entry L (k # idx)"
      by (simp add: G_def assign_last_def scale_but_last_def shL)
    moreover have "entry L (k # idx)
        = (if idx ! k + 1 < shape u ! k
           then entry u (idx[k := idx ! k + 1]) - entry u idx else 0)"
      using True unfolding L_def grad_loop_entry by simp
    ultimately show ?thesis using True by simp
  next
    case False
    then have "k = ndim u" using that by simp
    then show ?thesis
      by (simp add: G_def assign_last_def scale_but_last_def shL scale_def)
  qed
  show ?thesis using G shG ent by blast
qed

lemma div_id_Inr:
  assumes "0 \<le> r" "r \<le> 1" "shape v = (n + 1) # sh" "length sh = n"
  shows "\<exists>D. div_id v r = Inr D \<and> shape D = sh
     \<and> (\<forall>i. (\<forall>d<n. i ! d < sh ! d) \<longrightarrow> entry D i
          = (1 - r) * (\<Sum>d<n. (if i ! d + 1 < sh ! d then entry v (d # i) else 0)
                - (if 1 \<le> i ! d then entry v (d # i[d := i ! d - 1]) else 0))
            - r * entry v (n # i))"
proof -
  define L where "L = fold (div_axis v) [0..<n] (zeros sh)"
  have shL: "shape L = sh" by (simp add: L_def div_loop_shape zeros_def)
  define D where "D = minus_array (scale (1 - r) L) (scale r (sub_array v n))"
  have D: "div_id v r = Inr D"
    using assms by (simp add: div_id_def Let_def D_def L_def)
  have shD: "shape D = sh"
    by (simp add: D_def minus_array_def scale_def shL)
  have ent: "entry D i
          = (1 - r) * (\<Sum>d<n. (if i ! d + 1 < sh ! d then entry v (d # i) else 0)
                - (if 1 \<le> i ! d then entry v (d # i[d := i ! d - 1]) else 0))
            - r * entry v (n # i)" if "\<forall>d<n. i ! d < sh ! d" for i
    using div_loop_entry[OF that, of v]
    by (simp add: D_def minus_array_def scale_def sub_array_def L_def)
  show ?thesis using D shD ent by blast
qed

text \<open>
  Claim C1, as amended. For every \<open>l1_ratio\<close> in \<open>[0, 1]\<close>, every array \<open>u\<close> of any
  number of axes and every \<open>v\<close> of shape \<open>(N+1, *u.shape)\<close>, both operators return and
  the inner product of \<open>gradient_id(u, r)\<close> with \<open>v\<close> is the negative of the inner
  product of \<open>u\<close> with \<open>div_id(v, r)\<close>.
\<close>

theorem gradient_id_div_id_negative_adjoint:
  assumes r: "0 \<le> r" "r \<le> 1" and v: "shape v = (ndim u + 1) # shape u"
  shows "\<exists>a. gradient_inner u v r = Inr a \<and> div_inner u v r = Inr (- a)"
proof -
  define n where "n = ndim u"
  define s where "s = shape u"
  have ls: "length s = n" by (simp add: n_def s_def ndim_def)
  define dv where "dv = (\<lambda>k idx. (if idx ! k + 1 < s ! k then entry v (k # idx) else 0)
                - (if 1 \<le> idx ! k then entry v (k # idx[k := idx ! k - 1]) else 0))"
  define S where "S = (\<lambda>k. sum_list (map (\<lambda>idx. entry u idx * dv k idx) (indices s)))"
  define T where "T = sum_list (map (\<lambda>idx. entry u idx * entry v (n # idx)) (indices s))"
  from gradient_id_Inr[OF r, of u] obtain G where G: "gradient_id u r = Inr G"
    and shG: "shape G = (n + 1) # s"
    and entG: "\<And>k idx. k \<le> n \<Longrightarrow> entry G (k # idx)
          = (if k < n
             then (1 - r) * (if idx ! k + 1 < s ! k
                             then entry u (idx[k := idx ! k + 1]) - entry u idx else 0)
             else r * entry u idx)"
    unfolding n_def s_def by blast
  from div_id_Inr[OF r, of v n s] v ls obtain D where D: "div_id v r = Inr D"
    and shD: "shape D = s"
    and entD: "\<And>i. (\<forall>d<n. i ! d < s ! d) \<Longrightarrow> entry D i
          = (1 - r) * (\<Sum>d<n. dv d i) - r * entry v (n # i)"
    unfolding n_def s_def dv_def by blast
  have chan: "sum_list (map (\<lambda>idx. entry G (k # idx) * entry v (k # idx)) (indices s))
        = - ((1 - r) * S k)" if k: "k < n" for k
  proof -
    have "sum_list (map (\<lambda>idx. entry G (k # idx) * entry v (k # idx)) (indices s))
        = sum_list (map (\<lambda>idx. (1 - r) * (if idx ! k + 1 < s ! k
             then (entry u (idx[k := idx ! k + 1]) - entry u idx) * entry v (k # idx) else 0))
            (indices s))"
      using k by (intro sum_list_cong_set) (simp add: entG)
    also have "\<dots> = (1 - r) * sum_list (map (\<lambda>idx. if idx ! k + 1 < s ! k
             then (entry u (idx[k := idx ! k + 1]) - entry u idx) * entry v (k # idx) else 0)
            (indices s))"
      by (rule sum_list_const_mult)
    also have "\<dots> = (1 - r) * (- S k)"
      using k ls axis_by_parts[of k s "entry u" "\<lambda>idx. entry v (k # idx)"]
      by (simp add: S_def dv_def)
    finally show ?thesis by simp
  qed
  have last: "sum_list (map (\<lambda>idx. entry G (n # idx) * entry v (n # idx)) (indices s)) = r * T"
  proof -
    have "sum_list (map (\<lambda>idx. entry G (n # idx) * entry v (n # idx)) (indices s))
        = sum_list (map (\<lambda>idx. r * (entry u idx * entry v (n # idx))) (indices s))"
      by (intro sum_list_cong_set) (simp add: entG)
    also have "\<dots> = r * T" unfolding T_def by (rule sum_list_const_mult)
    finally show ?thesis .
  qed
  have lhs: "inner G v = - ((1 - r) * (\<Sum>k<n. S k)) + r * T"
  proof -
    have "inner G v = (\<Sum>k<n + 1. sum_list (map (\<lambda>idx. entry G (k # idx) * entry v (k # idx))
                       (indices s)))"
      unfolding inner_def shG by (rule sum_list_indices_Cons)
    also have "\<dots> = (\<Sum>k<n. - ((1 - r) * S k)) + r * T"
      using chan last by simp
    also have "\<dots> = - ((1 - r) * (\<Sum>k<n. S k)) + r * T"
      by (simp add: sum_negf sum_distrib_left)
    finally show ?thesis .
  qed
  have rhs: "inner u D = (1 - r) * (\<Sum>k<n. S k) - r * T"
  proof -
    have "inner u D
        = sum_list (map (\<lambda>idx. entry u idx * ((1 - r) * (\<Sum>d<n. dv d idx) - r * entry v (n # idx)))
            (indices s))"
      unfolding inner_def s_def[symmetric]
    proof (intro sum_list_cong_set)
      fix idx assume "idx \<in> set (indices s)"
      then have "\<forall>d<n. idx ! d < s ! d" using indices_range[of idx s] ls by simp
      then show "entry u idx * entry D idx
          = entry u idx * ((1 - r) * (\<Sum>d<n. dv d idx) - r * entry v (n # idx))"
        by (simp add: entD)
    qed
    also have "\<dots> = sum_list (map (\<lambda>idx. (1 - r) * (\<Sum>d<n. entry u idx * dv d idx)
                         - r * (entry u idx * entry v (n # idx))) (indices s))"
      by (intro sum_list_cong_set) (simp add: algebra_simps sum_distrib_left)
    also have "\<dots> = (1 - r) * sum_list (map (\<lambda>idx. \<Sum>d<n. entry u idx * dv d idx) (indices s))
                     - r * T"
      unfolding T_def by (simp add: sum_list_subtractf sum_list_const_mult)
    also have "sum_list (map (\<lambda>idx. \<Sum>d<n. entry u idx * dv d idx) (indices s)) = (\<Sum>k<n. S k)"
      unfolding S_def by (rule sum_sum_list_swap[symmetric])
    finally show ?thesis .
  qed
  have "gradient_inner u v r = Inr (inner G v)" by (simp add: gradient_inner_def G)
  moreover have "div_inner u v r = Inr (- inner G v)"
    using lhs rhs by (simp add: div_inner_def D)
  ultimately show ?thesis by blast
qed

theorem gradient_id_div_id_negative_adjoint_witness:
  "(0::real) \<le> 1 / 3 \<and> (1 / 3 :: real) \<le> 1
   \<and> shape \<lparr>shape = [3, 2, 2], entry = (\<lambda>i. real (sum_list i))\<rparr>
       = (ndim (array2 [[1, 2], [3, 5]]) + 1) # shape (array2 [[1, 2], [3, 5]])
   \<and> (\<exists>a. gradient_inner (array2 [[1, 2], [3, 5]])
                \<lparr>shape = [3, 2, 2], entry = (\<lambda>i. real (sum_list i))\<rparr> (1 / 3) = Inr a
          \<and> div_inner (array2 [[1, 2], [3, 5]])
                \<lparr>shape = [3, 2, 2], entry = (\<lambda>i. real (sum_list i))\<rparr> (1 / 3) = Inr (- a))"
  using gradient_id_div_id_negative_adjoint[of "1 / 3"
      "\<lparr>shape = [3, 2, 2], entry = (\<lambda>i. real (sum_list i))\<rparr>" "array2 [[1, 2], [3, 5]]"]
  by (simp add: array2_def ndim_def)

text \<open>
  Claim C1 as stated (equal inner products) fails: for \<open>u = (1, 2)\<close>,
  \<open>v = ((1, 0), (3, 4))\<close> and \<open>l1_ratio = 1/2\<close> the two inner products are \<open>6\<close> and
  \<open>-6\<close>.
\<close>

theorem gradient_id_div_id_adjoint_counterexample:
  "(0::real) \<le> 1 / 2 \<and> (1 / 2 :: real) \<le> 1
   \<and> shape (array2 [[1, 0], [3, 4]]) = (ndim (array1 [1, 2]) + 1) # shape (array1 [1, 2])
   \<and> gradient_inner (array1 [1, 2]) (array2 [[1, 0], [3, 4]]) (1 / 2) = Inr 6
   \<and> div_inner (array1 [1, 2]) (array2 [[1, 0], [3, 4]]) (1 / 2) = Inr (- 6)"
  by code_simp


section \<open>Properties of the early-stopping callback\<close>

lemma bind_err_Inr: "bind_err m f = Inr r \<longleftrightarrow> (\<exists>x. m = Inr x \<and> f x = Inr r)"
  by (cases m) (simp_all add: bind_err_def)

lemma call_Inr:
  assumes "call lib nm self w = Inr (r, self')" and "0 \<le> es_counter self"
  shows "\<exists>score sec. test_score lib (self\<lparr>es_counter := es_counter self + 1\<rparr>) w
            = Inr (score, sec)
       \<and> self' = self\<lparr>es_counter := es_counter self + 1,
              es_test_scores := es_test_scores self @ [score]\<rparr>
       \<and> r = (if 20 < es_counter self' \<and> es_counter self' mod 10 = 2
              then Some (4 < length (es_test_scores self')
                   \<and> fge (mean_scores nm (diff_scores nm (rev (last_n 5 (es_test_scores self')))))
                         (Fin (- float_1e_4)))
              else None)"
proof -
  define s1 where "s1 = self\<lparr>es_counter := es_counter self + 1\<rparr>"
  have nz: "es_counter s1 \<noteq> 0" using assms(2) by (simp add: s1_def)
  have eq: "(if es_counter s1 = 0 then s1\<lparr>es_test_scores := []\<rparr> else s1) = s1"
    using nz by simp
  have c: "bind_err (test_score lib s1 w) (\<lambda>(score, _).
           if \<not> (20 < es_counter (s1\<lparr>es_test_scores := es_test_scores s1 @ [score]\<rparr>)
                 \<and> es_counter (s1\<lparr>es_test_scores := es_test_scores s1 @ [score]\<rparr>) mod 10 = 2)
           then Inr (None, s1\<lparr>es_test_scores := es_test_scores s1 @ [score]\<rparr>)
           else if 4 < length (es_test_scores (s1\<lparr>es_test_scores := es_test_scores s1 @ [score]\<rparr>))
                   \<and> fge (mean_scores nm (diff_scores nm (rev (last_n 5
                          (es_test_scores (s1\<lparr>es_test_scores := es_test_scores s1 @ [score]\<rparr>))))))
                         (Fin (- float_1e_4))
                then Inr (Some True, s1\<lparr>es_test_scores := es_test_scores s1 @ [score]\<rparr>)
                else Inr (Some False, s1\<lparr>es_test_scores := es_test_scores s1 @ [score]\<rparr>))
         = Inr (r, self')"
    using assms(1) unfolding call_def Let_def s1_def[symmetric] eq .
  obtain score sec where ts: "test_score lib s1 w = Inr (score, sec)"
    using c by (cases "test_score lib s1 w") (auto simp: bind_err_def)
  have "self' = s1\<lparr>es_test_scores := es_test_scores s1 @ [score]\<rparr>
      \<and> r = (if 20 < es_counter s1 \<and> es_counter s1 mod 10 = 2
              then Some (4 < length (es_test_scores s1 @ [score])
                   \<and> fge (mean_scores nm (diff_scores nm (rev (last_n 5 (es_test_scores s1 @ [score])))))
                         (Fin (- float_1e_4)))
              else None)"
    using c unfolding ts by (auto simp: bind_err_def split: if_splits)
  then show ?thesis using ts unfolding s1_def by simp
qed

lemma run_calls_inv:
  assumes "run_calls lib nm self ws = Inr (rs, self')"
    and "es_counter self = int (length (es_test_scores self))"
  shows "length rs = length ws
     \<and> length (es_test_scores self') = length (es_test_scores self) + length ws
     \<and> take (length (es_test_scores self)) (es_test_scores self') = es_test_scores self
     \<and> (\<forall>n<length ws. rs ! n
            = stop_answer nm (es_test_scores self') (length (es_test_scores self) + n + 1))"
  using assms
proof (induction ws arbitrary: self rs)
  case Nil
  then show ?case by simp
next
  case (Cons w ws)
  from Cons.prems(1) obtain r s1 rs' where c: "call lib nm self w = Inr (r, s1)"
    and rc: "run_calls lib nm s1 ws = Inr (rs', self')" and rs: "rs = r # rs'"
    by (auto simp: bind_err_Inr)
  define m where "m = length (es_test_scores self)"
  have nonneg: "0 \<le> es_counter self" using Cons.prems(2) by simp
  from call_Inr[OF c nonneg] obtain score where
    s1: "s1 = self\<lparr>es_counter := es_counter self + 1,
              es_test_scores := es_test_scores self @ [score]\<rparr>"
    and r: "r = (if 20 < es_counter s1 \<and> es_counter s1 mod 10 = 2
              then Some (4 < length (es_test_scores s1)
                   \<and> fge (mean_scores nm (diff_scores nm (rev (last_n 5 (es_test_scores s1)))))
                         (Fin (- float_1e_4)))
              else None)"
    by blast
  have len1: "length (es_test_scores s1) = m + 1" by (simp add: s1 m_def)
  have cnt1: "es_counter s1 = int (m + 1)" using Cons.prems(2) by (simp add: s1 m_def)
  have inv1: "es_counter s1 = int (length (es_test_scores s1))" using len1 cnt1 by simp
  from Cons.IH[OF rc inv1] have ih1: "length rs' = length ws"
    and ih2: "length (es_test_scores self') = m + 1 + length ws"
    and ih3: "take (m + 1) (es_test_scores self') = es_test_scores s1"
    and ih4: "\<And>n. n < length ws \<Longrightarrow> rs' ! n = stop_answer nm (es_test_scores self') (m + 1 + n + 1)"
    unfolding len1 by simp_all
  have chk: "(20 < es_counter s1 \<and> es_counter s1 mod 10 = 2) \<longleftrightarrow> (20 < m + 1 \<and> (m + 1) mod 10 = 2)"
  proof -
    have "int (m + 1) mod 10 = 2 \<longleftrightarrow> (m + 1) mod 10 = 2"
      by (metis of_nat_numeral of_nat_eq_iff zmod_int)
    moreover have "20 < int (m + 1) \<longleftrightarrow> 20 < m + 1" by linarith
    ultimately show ?thesis unfolding cnt1 by simp
  qed
  have r0: "r = stop_answer nm (es_test_scores self') (m + 1)"
    unfolding r stop_answer_def ih3 chk by simp
  have tk: "take m (es_test_scores self') = es_test_scores self"
  proof -
    have "take m (es_test_scores self') = take m (take (m + 1) (es_test_scores self'))"
      by simp
    also have "\<dots> = take m (es_test_scores self @ [score])" unfolding ih3 by (simp add: s1)
    also have "\<dots> = es_test_scores self" by (simp add: m_def)
    finally show ?thesis .
  qed
  have nth: "rs ! n = stop_answer nm (es_test_scores self') (m + n + 1)" if "n < length (w # ws)" for n
  proof (cases n)
    case 0
    then show ?thesis using r0 rs by simp
  next
    case (Suc k)
    then have "k < length ws" using that by simp
    then show ?thesis using ih4[of k] rs Suc by simp
  qed
  show ?case using ih1 ih2 tk nth rs unfolding m_def by simp
qed

text \<open>
  Claim C5, as amended. In any run of calls on a fresh callback, call number \<open>n + 1\<close>
  answers \<open>True\<close> exactly when \<open>n + 1\<close> exceeds 20, is congruent to 2 modulo 10, at
  least five scores are recorded and \<open>np.mean(np.diff(...))\<close> of the last five scores
  taken newest first (the reversed list) compares \<open>>=\<close> to the float \<open>-1e-4\<close>; at
  any other call number the answer is \<open>None\<close>. The differences and the mean are the
  floats that numpy computes, with the IEEE rules for infinite scores and \<open>nan\<close>.
\<close>

theorem early_stopping_checkpoints:
  assumes "run_calls lib nm (EarlyStoppingCallback X_test y_test is_classif debias ymean verbose) ws
             = Inr (rs, self')"
  shows "length rs = length ws \<and> length (es_test_scores self') = length ws
     \<and> (\<forall>n<length ws.
          (rs ! n = Some True \<longleftrightarrow>
             20 < n + 1 \<and> (n + 1) mod 10 = 2 \<and> 5 \<le> n + 1
             \<and> fge (mean_scores nm (diff_scores nm (rev (last_n 5
                       (take (n + 1) (es_test_scores self'))))))
                   (Fin (- float_1e_4)))
        \<and> (\<not> (20 < n + 1 \<and> (n + 1) mod 10 = 2) \<longrightarrow> rs ! n = None))"
proof -
  have inv: "es_counter (EarlyStoppingCallback X_test y_test is_classif debias ymean verbose)
      = int (length (es_test_scores
               (EarlyStoppingCallback X_test y_test is_classif debias ymean verbose)))"
    by (simp add: EarlyStoppingCallback_def)
  have e: "es_test_scores (EarlyStoppingCallback X_test y_test is_classif debias ymean verbose) = []"
    by (simp add: EarlyStoppingCallback_def)
  from run_calls_inv[OF assms inv] have l1: "length rs = length ws"
    and l2: "length (es_test_scores self') = length ws"
    and a: "\<And>n. n < length ws \<Longrightarrow> rs ! n = stop_answer nm (es_test_scores self') (n + 1)"
    unfolding e by simp_all
  have "(rs ! n = Some True \<longleftrightarrow>
             20 < n + 1 \<and> (n + 1) mod 10 = 2 \<and> 5 \<le> n + 1
             \<and> fge (mean_scores nm (diff_scores nm (rev (last_n 5
                       (take (n + 1) (es_test_scores self'))))))
                   (Fin (- float_1e_4)))
        \<and> (\<not> (20 < n + 1 \<and> (n + 1) mod 10 = 2) \<longrightarrow> rs ! n = None)" if n: "n < length ws" for n
  proof -
    have "length (take (n + 1) (es_test_scores self')) = n + 1" using n l2 by simp
    then show ?thesis unfolding a[OF n] stop_answer_def by auto
  qed
  then show ?thesis using l1 l2 by blast
qed

subsection \<open>Two runs with the correlation routines\<close>

lemma pearson_low: "pearson_correlation [3, - 3, 4, - 4] example_y_test = Inr (Fin (24 / 25))"
  by (simp add: pearson_correlation_def example_y_test_def Let_def)

lemma pearson_high: "pearson_correlation [4, - 4, 3, - 3] example_y_test = Inr (Fin 1)"
  by (simp add: pearson_correlation_def example_y_test_def Let_def)

lemma spearman_low: "spearman_correlation [3, - 3, 4, - 4] example_y_test = Inr (Fin (3 / 5))"
  by (simp add: spearman_correlation_def rankdata_def pearson_correlation_def example_y_test_def
      Let_def power2_eq_square)

lemma spearman_high: "spearman_correlation [4, - 4, 3, - 3] example_y_test = Inr (Fin 1)"
  by (simp add: spearman_correlation_def rankdata_def pearson_correlation_def example_y_test_def
      Let_def power2_eq_square)

lemma test_score_low:
  assumes "es_X_test self = example_X_test" and "es_y_test self = example_y_test"
    and "\<not> es_is_classif self"
  shows "test_score example_library self [3, 4] = Inr (Fin (24 / 25), Fin (3 / 5))"
proof -
  have p: "mat_vec example_X_test [3, 4] = Inr [3, - 3, 4, - 4]"
    by (simp add: mat_vec_def dot_def example_X_test_def)
  show ?thesis using assms
    by (simp add: test_score_def Let_def bind_err_def p example_library_def pearson_low
        spearman_low)
qed

lemma test_score_high:
  assumes "es_X_test self = example_X_test" and "es_y_test self = example_y_test"
    and "\<not> es_is_classif self"
  shows "test_score example_library self [4, 3] = Inr (Fin 1, Fin 1)"
proof -
  have p: "mat_vec example_X_test [4, 3] = Inr [4, - 4, 3, - 3]"
    by (simp add: mat_vec_def dot_def example_X_test_def)
  show ?thesis using assms
    by (simp add: test_score_def Let_def bind_err_def p example_library_def pearson_high
        spearman_high)
qed

lemma flat_run:
  "run_calls example_library exact_arithmetic
       (EarlyStoppingCallback example_X_test example_y_test False False 0 0) flat_iterates
     = Inr (replicate 21 None @ [Some True],
            (EarlyStoppingCallback example_X_test example_y_test False False 0 0)
              \<lparr>es_counter := 22, es_test_scores := replicate 22 (Fin (24 / 25))\<rparr>)"
  unfolding flat_iterates_def EarlyStoppingCallback_def
  apply (simp add: numeral_eq_Suc)
  apply (simp add: call_def test_score_low Let_def bind_err_def)
  apply (simp add: mean_scores_def diff_scores_def last_n_def exact_arithmetic_def float_1e_4_def)
  done

theorem early_stopping_checkpoints_witness:
  "\<exists>rs self'. run_calls example_library exact_arithmetic
        (EarlyStoppingCallback example_X_test example_y_test False False 0 0) flat_iterates
       = Inr (rs, self')
     \<and> rs = replicate 21 None @ [Some True]
     \<and> length rs = length flat_iterates \<and> length (es_test_scores self') = length flat_iterates
     \<and> (\<forall>n<length flat_iterates.
          (rs ! n = Some True \<longleftrightarrow>
             20 < n + 1 \<and> (n + 1) mod 10 = 2 \<and> 5 \<le> n + 1
             \<and> fge (mean_scores exact_arithmetic (diff_scores exact_arithmetic (rev (last_n 5
                       (take (n + 1) (es_test_scores self'))))))
                   (Fin (- float_1e_4)))
        \<and> (\<not> (20 < n + 1 \<and> (n + 1) mod 10 = 2) \<longrightarrow> rs ! n = None))"
  using early_stopping_checkpoints[OF flat_run] flat_run by blast

text \<open>
  Claim C5 as stated, with the differences of the scores in the order they were recorded,
  fails. Twenty-one iterates score \<open>0.96\<close> and the 22nd scores 1: the mean first
  difference of the last five scores \<open>0.96, 0.96, 0.96, 0.96, 1\<close> is \<open>0.01\<close>, which
  is at least \<open>-1e-4\<close>, but the 22nd call answers \<open>False\<close>, because the code takes
  the differences of the reversed list, whose mean is \<open>-0.01\<close>.
\<close>

theorem early_stopping_chronological_counterexample:
  "run_calls example_library exact_arithmetic example_stopper rising_iterates
     = Inr (replicate 21 None @ [Some False],
            example_stopper\<lparr>es_counter := 22,
              es_test_scores := replicate 21 (Fin (24 / 25)) @ [Fin 1]\<rparr>)
   \<and> spec_stop_condition exact_arithmetic (replicate 21 (Fin (24 / 25)) @ [Fin 1])"
proof -
  have run: "run_calls example_library exact_arithmetic example_stopper rising_iterates
     = Inr (replicate 21 None @ [Some False],
            example_stopper\<lparr>es_counter := 22,
              es_test_scores := replicate 21 (Fin (24 / 25)) @ [Fin 1]\<rparr>)"
    unfolding rising_iterates_def example_stopper_def EarlyStoppingCallback_def
    apply (simp add: numeral_eq_Suc)
    apply (simp add: call_def test_score_low test_score_high Let_def bind_err_def)
    apply (simp add: mean_scores_def diff_scores_def last_n_def exact_arithmetic_def float_1e_4_def)
    done
  have spec: "spec_stop_condition exact_arithmetic (replicate 21 (Fin (24 / 25)) @ [Fin 1])"
    by (simp add: spec_stop_condition_def numeral_eq_Suc mean_scores_def diff_scores_def
        last_n_def exact_arithmetic_def float_1e_4_def)
  show ?thesis using run spec by simp
qed

text \<open>
  An infinite score among the last five makes the mean \<open>nan\<close>, and the answer
  \<open>False\<close>, however the finite scores compare.
\<close>

lemma stop_answer_infinite_score:
  "stop_answer nm (replicate 17 (Fin a) @ [Fin a, Fin a, NInf, Fin a, Fin a]) 22 = Some False"
proof -
  have l: "last_n 5 (replicate 17 (Fin a) @ [Fin a, Fin a, NInf, Fin a, Fin a])
      = [Fin a, Fin a, NInf, Fin a, Fin a]"
    by (simp add: last_n_def)
  have m: "mean_scores nm (diff_scores nm [Fin a, Fin a, NInf, Fin a, Fin a]) = NaN"
    by (simp add: mean_scores_def diff_scores_def)
  show ?thesis
    by (simp add: stop_answer_def l m)
qed

section \<open>Properties of the estimator\<close>

text \<open>
  Claim C9, as amended. For a numeric \<open>l1_ratio\<close> the constructor raises a
  \<open>ValueError\<close> exactly when \<open>alpha\<close> is neither \<open>None\<close> nor a number, or
  \<open>l1_ratio\<close> is outside \<open>[0, 1]\<close>, or \<open>screening_percentile\<close> is outside
  \<open>[0, 100]\<close>, or the lower-cased penalty is not a supported penalty, or a loss is given
  whose lower-cased name is not a supported loss or is \<open>logistic\<close> without
  \<open>is_classif\<close>; otherwise it succeeds, with the warning exactly when \<open>l1_ratio\<close> is 0
  or 1.
\<close>

theorem check_params_eager:
  assumes "self_l1_ratio self = PyNumber r"
  shows "(BaseSpaceNet_init self = Inl ValueError \<longleftrightarrow>
            self_alpha self = PyOther
          \<or> \<not> (0 \<le> r \<and> r \<le> 1)
          \<or> \<not> (0 \<le> self_screening_percentile self \<and> self_screening_percentile self \<le> 100)
          \<or> lower (self_penalty self) \<notin> {''smooth-lasso'', ''tv-l1''}
          \<or> (\<exists>l. self_loss self = Some l
                \<and> (lower l \<notin> {''mse'', ''logistic''}
                    \<or> (lower l = ''logistic'' \<and> \<not> self_is_classif self))))
       \<and> (BaseSpaceNet_init self \<noteq> Inl ValueError \<longrightarrow>
            BaseSpaceNet_init self = Inr (self, r = 0 \<or> r = 1))"
proof -
  have a: "none_or_number (self_alpha self) \<longleftrightarrow> self_alpha self \<noteq> PyOther"
    by (cases "self_alpha self") simp_all
  show ?thesis
  proof (cases "self_loss self")
    case None
    then show ?thesis using assms a
      by (simp add: BaseSpaceNet_init_def check_params_def bind_err_def Let_def
          SUPPORTED_PENALTIES_def SUPPORTED_LOSSES_def)
  next
    case (Some l)
    then show ?thesis using assms a
      by (simp add: BaseSpaceNet_init_def check_params_def bind_err_def Let_def
          SUPPORTED_PENALTIES_def SUPPORTED_LOSSES_def)
  qed
qed

theorem check_params_eager_witness:
  "BaseSpaceNet_init \<lparr>self_penalty = ''Smooth-Lasso'', self_is_classif = True,
      self_loss = Some ''logistic'', self_alpha = PyNone, self_l1_ratio = PyNumber 1,
      self_screening_percentile = 20, self_standardize = True, self_debias = False\<rparr>
    = Inr (\<lparr>self_penalty = ''Smooth-Lasso'', self_is_classif = True,
      self_loss = Some ''logistic'', self_alpha = PyNone, self_l1_ratio = PyNumber 1,
      self_screening_percentile = 20, self_standardize = True, self_debias = False\<rparr>, True)
   \<and> BaseSpaceNet_init \<lparr>self_penalty = ''tv-l1'', self_is_classif = False,
      self_loss = Some ''logistic'', self_alpha = PyNone, self_l1_ratio = PyNumber (1 / 2),
      self_screening_percentile = 20, self_standardize = True, self_debias = False\<rparr>
    = Inl ValueError"
proof -
  have l: "lower ''Smooth-Lasso'' = ''smooth-lasso'' \<and> lower ''logistic'' = ''logistic''
      \<and> lower ''tv-l1'' = ''tv-l1''"
    by code_simp
  show ?thesis
    using check_params_eager[of "\<lparr>self_penalty = ''Smooth-Lasso'', self_is_classif = True,
      self_loss = Some ''logistic'', self_alpha = PyNone, self_l1_ratio = PyNumber 1,
      self_screening_percentile = 20, self_standardize = True, self_debias = False\<rparr>" 1]
      check_params_eager[of "\<lparr>self_penalty = ''tv-l1'', self_is_classif = False,
      self_loss = Some ''logistic'', self_alpha = PyNone, self_l1_ratio = PyNumber (1 / 2),
      self_screening_percentile = 20, self_standardize = True, self_debias = False\<rparr>" "1 / 2"]
    by (simp add: l)
qed

text \<open>
  Claim C9 as stated fails because names are compared after lower-casing: the penalty
  \<open>TV-L1\<close> is not one of the two listed strings, yet the constructor succeeds.
\<close>

theorem check_params_case_counterexample:
  "''TV-L1'' \<notin> {''smooth-lasso'', ''tv-l1''}
   \<and> BaseSpaceNet_init \<lparr>self_penalty = ''TV-L1'', self_is_classif = False, self_loss = None,
      self_alpha = PyNone, self_l1_ratio = PyNumber (1 / 2), self_screening_percentile = 20,
      self_standardize = True, self_debias = False\<rparr>
    = Inr (\<lparr>self_penalty = ''TV-L1'', self_is_classif = False, self_loss = None,
      self_alpha = PyNone, self_l1_ratio = PyNumber (1 / 2), self_screening_percentile = 20,
      self_standardize = True, self_debias = False\<rparr>, False)"
  by code_simp

lemma check_params_l1_ratio_None:
  "self_l1_ratio self = PyNone \<Longrightarrow> self_alpha self \<noteq> PyOther
     \<Longrightarrow> BaseSpaceNet_init self = Inl TypeError"
  by (cases "self_alpha self") (simp_all add: BaseSpaceNet_init_def check_params_def bind_err_def)

subsection \<open>Standardization\<close>

lemma sum_list_shift_scale:
  "sum_list (map (\<lambda>x. (x - c) / d) xs) = (sum_list xs - real (length xs) * c) / (d :: real)"
  by (induction xs) (simp_all add: diff_divide_distrib add_divide_distrib algebra_simps)

lemma sum_list_square_scale:
  "sum_list (map (\<lambda>x. ((x - c) / d)\<^sup>2) xs)
     = sum_list (map (\<lambda>x. (x - c)\<^sup>2) xs) / (d :: real)\<^sup>2"
  by (induction xs) (simp_all add: power_divide add_divide_distrib)

lemma sum_list_squares_nonneg: "0 \<le> sum_list (map (\<lambda>x. (x - c)\<^sup>2) (xs :: real list))"
  by (induction xs) simp_all

lemma standardize_X_Inr:
  assumes "standardize_X X = Inr (X', Xmean, Xstd)"
  shows "X \<noteq> []"
    and "Xmean = map (col_mean X) [0..<n_features X]"
    and "Xstd = map (col_std X) [0..<n_features X]"
    and "\<forall>j<n_features X. col_std X j \<noteq> 0"
    and "X' = map (\<lambda>row. map (\<lambda>j. (row ! j - col_mean X j) / col_std X j) [0..<n_features X]) X"
proof -
  have ok: "\<not> (X = [] \<or> (\<exists>s \<in> set (map (col_std X) [0..<n_features X]). s = 0))"
    using assms unfolding standardize_X_def Let_def by (auto split: if_splits)
  show "X \<noteq> []" using ok by simp
  show "Xmean = map (col_mean X) [0..<n_features X]"
    using assms ok unfolding standardize_X_def Let_def by simp
  show "Xstd = map (col_std X) [0..<n_features X]"
    using assms ok unfolding standardize_X_def Let_def by simp
  show "\<forall>j<n_features X. col_std X j \<noteq> 0" using ok by auto
  have "X' = map (\<lambda>row. map (\<lambda>j. (row ! j - map (col_mean X) [0..<n_features X] ! j)
                                   / map (col_std X) [0..<n_features X] ! j)
                        [0..<n_features X]) X"
    using assms ok unfolding standardize_X_def Let_def by auto
  also have "\<dots> = map (\<lambda>row. map (\<lambda>j. (row ! j - col_mean X j) / col_std X j)
                         [0..<n_features X]) X"
    by (intro map_cong refl) simp
  finally show "X' = map (\<lambda>row. map (\<lambda>j. (row ! j - col_mean X j) / col_std X j)
                             [0..<n_features X]) X" .
qed

text \<open>
  A standardized column is the column shifted by its mean and divided by its standard
  deviation (the square root of the mean squared deviation); its entries sum to zero and
  their squares sum to the number of samples.
\<close>

lemma standardize_X_column:
  assumes st: "standardize_X X = Inr (X', Xmean, Xstd)" and j: "j < n_features X"
  shows "Xmean ! j = sum_list (column X j) / real (length X)"
    and "Xstd ! j = sqrt (sum_list (map (\<lambda>x. (x - Xmean ! j)\<^sup>2) (column X j)) / real (length X))"
    and "Xstd ! j \<noteq> 0"
    and "column X' j = map (\<lambda>x. (x - Xmean ! j) / Xstd ! j) (column X j)"
    and "sum_list (column X' j) = 0"
    and "sum_list (map (\<lambda>x. x\<^sup>2) (column X' j)) = real (length X)"
proof -
  note f = standardize_X_Inr[OF st]
  define mu where "mu = col_mean X j"
  define sd where "sd = col_std X j"
  define V where "V = sum_list (map (\<lambda>x. (x - mu)\<^sup>2) (column X j)) / real (length X)"
  have n: "0 < real (length X)" using f(1) by simp
  have m: "Xmean ! j = mu" using f(2) j by (simp add: mu_def)
  have s: "Xstd ! j = sd" using f(3) j by (simp add: sd_def)
  have sd0: "sd \<noteq> 0" using f(4) j by (simp add: sd_def)
  have sdV: "sd = sqrt V" by (simp add: sd_def V_def col_std_def mu_def)
  have V0: "0 \<le> V" unfolding V_def using sum_list_squares_nonneg[of mu "column X j"] n by simp
  have sd2: "sd\<^sup>2 = V" using V0 by (simp add: sdV)
  have Vne: "V \<noteq> 0" using sd0 sdV by auto
  have col: "column X' j = map (\<lambda>x. (x - mu) / sd) (column X j)"
    unfolding f(5) column_def mu_def sd_def using j by (simp add: o_def)
  show "Xmean ! j = sum_list (column X j) / real (length X)"
    by (simp add: m mu_def col_mean_def)
  show "Xstd ! j = sqrt (sum_list (map (\<lambda>x. (x - Xmean ! j)\<^sup>2) (column X j)) / real (length X))"
    by (simp add: s m sdV V_def)
  show "Xstd ! j \<noteq> 0" using s sd0 by simp
  show "column X' j = map (\<lambda>x. (x - Xmean ! j) / Xstd ! j) (column X j)"
    by (simp add: col m s)
  have len: "length (column X j) = length X" by (simp add: column_def)
  have "sum_list (column X j) - real (length (column X j)) * mu = 0"
    using n by (simp add: len mu_def col_mean_def)
  then show "sum_list (column X' j) = 0"
    unfolding col sum_list_shift_scale by simp
  have "sum_list (map (\<lambda>x. x\<^sup>2) (column X' j))
      = sum_list (map (\<lambda>x. (x - mu)\<^sup>2) (column X j)) / sd\<^sup>2"
    unfolding col by (simp add: o_def sum_list_square_scale)
  also have "\<dots> = (V * real (length X)) / V" using n by (simp add: sd2 V_def)
  also have "\<dots> = real (length X)" using Vne by simp
  finally show "sum_list (map (\<lambda>x. x\<^sup>2) (column X' j)) = real (length X)" .
qed

lemma predict_proper_frame:
  "predict_proper (self\<lparr>self_Xmean := m, self_Xstd := s\<rparr>) X = predict_proper self X"
  by (simp add: predict_proper_def decision_function_def)

lemma sqrt_9: "sqrt 9 = 3"
  using real_sqrt_abs[of 3] by simp

lemma predict_wide_batch:
  "predict example_regressor [[0], [0], [0], [0], [5]]
     = Inr (Values [[- (1 / 2)], [- (1 / 2)], [- (1 / 2)], [- (1 / 2)], [2]])"
  by (simp add: predict_def example_regressor_def identity_masker_def standardize_X_def
      col_mean_def col_std_def column_def n_features_def predict_proper_def decision_function_def
      linear_scores_def dot_def bind_err_def)

lemma predict_pair_batch: "predict example_regressor [[0], [6]] = Inr (Values [[- 1], [1]])"
  by (simp add: predict_def example_regressor_def identity_masker_def standardize_X_def
      col_mean_def col_std_def column_def n_features_def predict_proper_def decision_function_def
      linear_scores_def dot_def bind_err_def sqrt_9 Let_def)

lemma standardize_wide_batch:
  "standardize_X [[0], [0], [0], [0], [5]]
     = Inr ([[- (1 / 2)], [- (1 / 2)], [- (1 / 2)], [- (1 / 2)], [2]], [1], [2])"
  by (simp add: standardize_X_def col_mean_def col_std_def column_def n_features_def)

text \<open>
  Claim C10. \<open>predict\<close> does not read the training-time \<open>Xmean\<close> and \<open>Xstd\<close>. With
  \<open>standardize\<close> set, it predicts from the incoming matrix standardized by
  \<open>_standardize_X\<close>: each column is shifted by the mean of that column of the incoming
  matrix and divided by its standard deviation, the square root of the mean squared
  deviation from that mean, so that each column of what the linear model sees has sum zero
  and sum of squares equal to the number of samples. So the prediction for a sample depends
  on its batch: with weight 1 and intercept 0 the sample \<open>(0)\<close> is predicted as
  \<open>-1/2\<close> next to three copies of itself and \<open>(5)\<close> (mean 1, standard deviation 2),
  and as \<open>-1\<close> next to \<open>(6)\<close> (mean 3, standard deviation 3).
\<close>

theorem predict_uses_batch_statistics:
  "predict (self\<lparr>self_Xmean := m, self_Xstd := s\<rparr>) imgs = predict self imgs
   \<and> (self_standardize self
        \<and> standardize_X (self_masker_transform self imgs) = Inr (X', Xmean, Xstd)
      \<longrightarrow> predict self imgs = predict_proper self X'
        \<and> length Xmean = n_features (self_masker_transform self imgs)
        \<and> length Xstd = n_features (self_masker_transform self imgs)
        \<and> (\<forall>j<n_features (self_masker_transform self imgs).
              Xmean ! j = sum_list (column (self_masker_transform self imgs) j)
                            / real (length (self_masker_transform self imgs))
            \<and> Xstd ! j = sqrt (sum_list (map (\<lambda>x. (x - Xmean ! j)\<^sup>2)
                                      (column (self_masker_transform self imgs) j))
                                / real (length (self_masker_transform self imgs)))
            \<and> Xstd ! j \<noteq> 0
            \<and> column X' j = map (\<lambda>x. (x - Xmean ! j) / Xstd ! j)
                               (column (self_masker_transform self imgs) j)
            \<and> sum_list (column X' j) = 0
            \<and> sum_list (map (\<lambda>x. x\<^sup>2) (column X' j))
                = real (length (self_masker_transform self imgs))))
   \<and> [[0], [0], [0], [0], [5]] ! 0 = [[0], [6 :: real]] ! 0
   \<and> predict example_regressor [[0], [0], [0], [0], [5]]
       = Inr (Values [[- (1 / 2)], [- (1 / 2)], [- (1 / 2)], [- (1 / 2)], [2]])
   \<and> predict example_regressor [[0], [6]] = Inr (Values [[- 1], [1]])"
proof (intro conjI impI allI)
  show "predict (self\<lparr>self_Xmean := m, self_Xstd := s\<rparr>) imgs = predict self imgs"
    unfolding predict_def Let_def predict_proper_frame by simp
next
  assume a: "self_standardize self
        \<and> standardize_X (self_masker_transform self imgs) = Inr (X', Xmean, Xstd)"
  then have st: "standardize_X (self_masker_transform self imgs) = Inr (X', Xmean, Xstd)"
    and on: "self_standardize self" by simp_all
  show "predict self imgs = predict_proper self X'"
    using on st by (simp add: predict_def Let_def bind_err_def)
  show "length Xmean = n_features (self_masker_transform self imgs)"
    using standardize_X_Inr(2)[OF st] by simp
  show "length Xstd = n_features (self_masker_transform self imgs)"
    using standardize_X_Inr(3)[OF st] by simp
  fix j
  assume j: "j < n_features (self_masker_transform self imgs)"
  show "Xmean ! j = sum_list (column (self_masker_transform self imgs) j)
                            / real (length (self_masker_transform self imgs))"
    by (rule standardize_X_column(1)[OF st j])
  show "Xstd ! j = sqrt (sum_list (map (\<lambda>x. (x - Xmean ! j)\<^sup>2)
                                      (column (self_masker_transform self imgs) j))
                                / real (length (self_masker_transform self imgs)))"
    by (rule standardize_X_column(2)[OF st j])
  show "Xstd ! j \<noteq> 0" by (rule standardize_X_column(3)[OF st j])
  show "column X' j = map (\<lambda>x. (x - Xmean ! j) / Xstd ! j)
                               (column (self_masker_transform self imgs) j)"
    by (rule standardize_X_column(4)[OF st j])
  show "sum_list (column X' j) = 0" by (rule standardize_X_column(5)[OF st j])
  show "sum_list (map (\<lambda>x. x\<^sup>2) (column X' j))
                = real (length (self_masker_transform self imgs))"
    by (rule standardize_X_column(6)[OF st j])
next
  show "[[0], [0], [0], [0], [5]] ! 0 = [[0], [6 :: real]] ! 0" by simp
  show "predict example_regressor [[0], [0], [0], [0], [5]]
       = Inr (Values [[- (1 / 2)], [- (1 / 2)], [- (1 / 2)], [- (1 / 2)], [2]])"
    by (rule predict_wide_batch)
  show "predict example_regressor [[0], [6]] = Inr (Values [[- 1], [1]])"
    by (rule predict_pair_batch)
qed

theorem predict_uses_batch_statistics_witness:
  "self_standardize example_regressor
   \<and> standardize_X (self_masker_transform example_regressor [[0], [0], [0], [0], [5]])
       = Inr ([[- (1 / 2)], [- (1 / 2)], [- (1 / 2)], [- (1 / 2)], [2]], [1], [2])
   \<and> predict (example_regressor\<lparr>self_Xmean := [5], self_Xstd := [7]\<rparr>) [[0], [0], [0], [0], [5]]
       = predict_proper example_regressor [[- (1 / 2)], [- (1 / 2)], [- (1 / 2)], [- (1 / 2)], [2]]
   \<and> [1 :: real] ! 0 = sum_list (column [[0], [0], [0], [0], [5]] 0) / 5
   \<and> [2 :: real] ! 0 = sqrt (sum_list (map (\<lambda>x. (x - 1)\<^sup>2) (column [[0], [0], [0], [0], [5]] 0)) / 5)
   \<and> sum_list (column [[- (1 / 2)], [- (1 / 2)], [- (1 / 2)], [- (1 / 2)], [2 :: real]] 0) = 0
   \<and> sum_list (map (\<lambda>x. x\<^sup>2)
        (column [[- (1 / 2)], [- (1 / 2)], [- (1 / 2)], [- (1 / 2)], [2 :: real]] 0)) = 5"
  using predict_uses_batch_statistics[where self = example_regressor and m = "[5]"
      and s = "[7]" and imgs = "[[0], [0], [0], [0], [5]]"
      and X' = "[[- (1 / 2)], [- (1 / 2)], [- (1 / 2)], [- (1 / 2)], [2]]"
      and Xmean = "[1]" and Xstd = "[2]"]
    standardize_wide_batch
  by (simp add: example_regressor_def identity_masker_def n_features_def column_def)

section \<open>Properties of the masks\<close>

lemma clear_outside_active:
  assumes "clear_outside a m = Inr r" and "active r i j k"
  shows "active m i j k"
proof -
  define f where "f = (\<lambda>x b. if \<not> b then False else (x::bool))"
  have "Inr (map2 (map2 (map2 f)) a m) = (Inr r :: error + mask)"
    using assms(1) unfolding clear_outside_def f_def[symmetric]
    by (cases "same_shape3 a m") simp_all
  then have r: "r = map2 (map2 (map2 f)) a m" by simp
  from assms(2) have i: "i < length r" and j: "j < length (r ! i)"
    and k: "k < length (r ! i ! j)" and v: "r ! i ! j ! k"
    by (simp_all add: active_def)
  from i have i1: "i < length a" "i < length m" by (simp_all add: r)
  then have ri: "r ! i = map2 (map2 f) (a ! i) (m ! i)"
    by (simp add: r)
  from j have j1: "j < length (a ! i)" "j < length (m ! i)" by (simp_all add: ri)
  then have rij: "r ! i ! j = map2 f (a ! i ! j) (m ! i ! j)"
    by (simp add: ri)
  from k have k1: "k < length (a ! i ! j)" "k < length (m ! i ! j)" by (simp_all add: rij)
  then have "r ! i ! j ! k = f (a ! i ! j ! k) (m ! i ! j ! k)"
    by (simp add: rij)
  then have "m ! i ! j ! k" using v by (simp add: f_def split: if_splits)
  then show ?thesis using i1 j1 k1 by (simp add: active_def)
qed

lemma screening_mask:
  assumes "univariate_feature_screening lib X y msk is_classif screening_percentile smooth
             = Inr (X', mask', support')"
  shows "\<exists>mask2. clear_outside mask2 msk = Inr mask'"
  using assms unfolding univariate_feature_screening_def Let_def bind_err_Inr
  by blast

lemma where3_active: "(i, j, k) \<in> set (where3 m) \<longleftrightarrow> active m i j k"
proof
  assume "(i, j, k) \<in> set (where3 m)"
  then show "active m i j k" by (auto simp: where3_def active_def)
next
  assume "active m i j k"
  then have "i \<in> {0..<length m}" "j \<in> {0..<length (m ! i)}"
    "k \<in> {k. k < length (m ! i ! j) \<and> m ! i ! j ! k}"
    by (simp_all add: active_def)
  then show "(i, j, k) \<in> set (where3 m)"
    unfolding where3_def by (simp add: image_iff)
qed

lemma py_slice_length: "length (py_slice a b xs) = min (b - a) (length xs - a)"
  by (simp add: py_slice_def)

lemma py_slice_nth: "i < length (py_slice a b xs) \<Longrightarrow> py_slice a b xs ! i = xs ! (a + i)"
proof -
  assume "i < length (py_slice a b xs)"
  then have "i < b - a \<and> i < length xs - a" by (simp add: py_slice_def)
  then have "i < b - a" "a \<le> length xs" by arith+
  then show ?thesis by (simp add: py_slice_def)
qed

lemma crop_bounds_cover:
  assumes b: "crop_bounds m = Inr (i_min, i_max, j_min, j_max, k_min, k_max)"
    and a: "active m i j k"
  shows "i_min \<le> i \<and> i \<le> i_max \<and> j_min \<le> j \<and> j \<le> j_max \<and> k_min \<le> k \<and> k \<le> k_max"
proof -
  define idx where "idx = where3 m"
  have mem: "(i, j, k) \<in> set idx" using a by (simp add: idx_def where3_active)
  then have ne: "idx \<noteq> []" by auto
  have bounds: "i_min = Min (set (map fst idx)) - 1" "i_max = Max (set (map fst idx))"
    "j_min = Min (set (map (fst \<circ> snd) idx)) - 1" "j_max = Max (set (map (fst \<circ> snd) idx))"
    "k_min = Min (set (map (snd \<circ> snd) idx)) - 1" "k_max = Max (set (map (snd \<circ> snd) idx))"
    using b ne by (simp_all add: crop_bounds_def Let_def idx_def[symmetric])
  have "i \<in> set (map fst idx)" using mem by force
  then have i: "Min (set (map fst idx)) \<le> i" "i \<le> Max (set (map fst idx))" by simp_all
  have "j \<in> set (map (fst \<circ> snd) idx)" using mem by force
  then have j: "Min (set (map (fst \<circ> snd) idx)) \<le> j" "j \<le> Max (set (map (fst \<circ> snd) idx))"
    by simp_all
  have "k \<in> set (map (snd \<circ> snd) idx)" using mem by force
  then have k: "Min (set (map (snd \<circ> snd) idx)) \<le> k" "k \<le> Max (set (map (snd \<circ> snd) idx))"
    by simp_all
  show ?thesis using i j k unfolding bounds by linarith
qed

lemma crop_mask_active:
  assumes b: "crop_bounds m = Inr (i_min, i_max, j_min, j_max, k_min, k_max)"
    and c: "crop_mask m = Inr c"
  shows "active c i j k \<longleftrightarrow> active m (i_min + i) (j_min + j) (k_min + k)"
proof -
  have c': "c = map (\<lambda>plane. map (\<lambda>row. py_slice k_min (k_max + 1) row)
                           (py_slice j_min (j_max + 1) plane))
              (py_slice i_min (i_max + 1) m)"
    using c b by (simp add: crop_mask_def bind_err_def)
  show ?thesis
  proof
    assume "active c i j k"
    then have i: "i < length c" and j: "j < length (c ! i)"
      and k: "k < length (c ! i ! j)" and v: "c ! i ! j ! k"
      by (simp_all add: active_def)
    from i have i1: "i < length (py_slice i_min (i_max + 1) m)" by (simp add: c')
    then have ci: "c ! i = map (\<lambda>row. py_slice k_min (k_max + 1) row)
                           (py_slice j_min (j_max + 1) (m ! (i_min + i)))"
      by (simp add: c' py_slice_nth)
    from j have j1: "j < length (py_slice j_min (j_max + 1) (m ! (i_min + i)))" by (simp add: ci)
    then have cij: "c ! i ! j = py_slice k_min (k_max + 1) (m ! (i_min + i) ! (j_min + j))"
      by (simp add: ci py_slice_nth)
    from k have k1: "k < length (py_slice k_min (k_max + 1) (m ! (i_min + i) ! (j_min + j)))"
      by (simp add: cij)
    then have cijk: "c ! i ! j ! k = m ! (i_min + i) ! (j_min + j) ! (k_min + k)"
      by (simp add: cij py_slice_nth)
    have "i_min + i < length m" using i1 unfolding py_slice_length by arith
    moreover have "j_min + j < length (m ! (i_min + i))"
      using j1 unfolding py_slice_length by arith
    moreover have "k_min + k < length (m ! (i_min + i) ! (j_min + j))"
      using k1 unfolding py_slice_length by arith
    ultimately show "active m (i_min + i) (j_min + j) (k_min + k)"
      using v cijk by (simp add: active_def)
  next
    assume a: "active m (i_min + i) (j_min + j) (k_min + k)"
    from crop_bounds_cover[OF b a] have le: "i_min + i \<le> i_max" "j_min + j \<le> j_max"
      "k_min + k \<le> k_max" by simp_all
    from a have im: "i_min + i < length m" and jm: "j_min + j < length (m ! (i_min + i))"
      and km: "k_min + k < length (m ! (i_min + i) ! (j_min + j))"
      and v: "m ! (i_min + i) ! (j_min + j) ! (k_min + k)"
      by (simp_all add: active_def)
    have i1: "i < length (py_slice i_min (i_max + 1) m)"
      using le(1) im unfolding py_slice_length by arith
    then have ci: "c ! i = map (\<lambda>row. py_slice k_min (k_max + 1) row)
                           (py_slice j_min (j_max + 1) (m ! (i_min + i)))"
      by (simp add: c' py_slice_nth)
    have j1: "j < length (py_slice j_min (j_max + 1) (m ! (i_min + i)))"
      using le(2) jm unfolding py_slice_length by arith
    then have cij: "c ! i ! j = py_slice k_min (k_max + 1) (m ! (i_min + i) ! (j_min + j))"
      by (simp add: ci py_slice_nth)
    have k1: "k < length (py_slice k_min (k_max + 1) (m ! (i_min + i) ! (j_min + j)))"
      using le(3) km unfolding py_slice_length by arith
    then have cijk: "c ! i ! j ! k = m ! (i_min + i) ! (j_min + j) ! (k_min + k)"
      by (simp add: cij py_slice_nth)
    have "i < length c" using i1 by (simp add: c')
    moreover have "j < length (c ! i)" using j1 by (simp add: ci)
    moreover have "k < length (c ! i ! j)" using k1 by (simp add: cij)
    ultimately show "active c i j k"
      using v cijk by (simp add: active_def)
  qed
qed

text \<open>
  Claim C8. Whatever the erosion and the dilation do, every active voxel of the screened
  mask is an active voxel of the mask it was screened from; and the cropped mask, moved
  back by the offset of the bounding box, has exactly the active voxels of the mask it
  was cropped from, none of which lies before the offset.
\<close>

theorem masks_keep_support:
  "(univariate_feature_screening lib X y msk is_classif screening_percentile smooth
        = Inr (X', mask', support')
      \<longrightarrow> (\<forall>i j k. active mask' i j k \<longrightarrow> active msk i j k))
   \<and> (where3 msk \<noteq> [] \<longrightarrow>
        (\<exists>c i_min i_max j_min j_max k_min k_max.
            crop_bounds msk = Inr (i_min, i_max, j_min, j_max, k_min, k_max)
          \<and> crop_mask msk = Inr c
          \<and> (\<forall>i j k. active c i j k \<longleftrightarrow> active msk (i_min + i) (j_min + j) (k_min + k))
          \<and> (\<forall>i j k. active msk i j k \<longrightarrow> i_min \<le> i \<and> j_min \<le> j \<and> k_min \<le> k)))"
proof (intro conjI impI)
  assume "univariate_feature_screening lib X y msk is_classif screening_percentile smooth
        = Inr (X', mask', support')"
  from screening_mask[OF this] obtain mask2 where "clear_outside mask2 msk = Inr mask'" ..
  then show "\<forall>i j k. active mask' i j k \<longrightarrow> active msk i j k"
    using clear_outside_active by blast
next
  assume ne: "where3 msk \<noteq> []"
  then obtain i_min i_max j_min j_max k_min k_max where
    b: "crop_bounds msk = Inr (i_min, i_max, j_min, j_max, k_min, k_max)"
    by (simp add: crop_bounds_def Let_def)
  then obtain c where c: "crop_mask msk = Inr c"
    by (simp add: crop_mask_def bind_err_def)
  have "\<forall>i j k. active c i j k \<longleftrightarrow> active msk (i_min + i) (j_min + j) (k_min + k)"
    using crop_mask_active[OF b c] by blast
  moreover have "\<forall>i j k. active msk i j k \<longrightarrow> i_min \<le> i \<and> j_min \<le> j \<and> k_min \<le> k"
    using crop_bounds_cover[OF b] by blast
  ultimately show "\<exists>c i_min i_max j_min j_max k_min k_max.
            crop_bounds msk = Inr (i_min, i_max, j_min, j_max, k_min, k_max)
          \<and> crop_mask msk = Inr c
          \<and> (\<forall>i j k. active c i j k \<longleftrightarrow> active msk (i_min + i) (j_min + j) (k_min + k))
          \<and> (\<forall>i j k. active msk i j k \<longrightarrow> i_min \<le> i \<and> j_min \<le> j \<and> k_min \<le> k)"
    using b c by blast
qed

text \<open>The screening reads four of the collaborators only.\<close>

lemma screening_fields:
  assumes "select_percentile l1 = select_percentile l2" "gaussian_filter l1 = gaussian_filter l2"
    "binary_erosion l1 = binary_erosion l2" "binary_dilation l1 = binary_dilation l2"
  shows "univariate_feature_screening l1 X y msk is_classif sp smooth
       = univariate_feature_screening l2 X y msk is_classif sp smooth"
  using assms by (simp add: univariate_feature_screening_def)

lemma crop_examples:
  "where3 [[[False, True, True]]] \<noteq> []
   \<and> crop_mask [[[False, True, True]]] = Inr [[[False, True, True]]]
   \<and> crop_mask [[[False, False, False], [False, False, True]]] = Inr [[[False, False], [False, True]]]"
  by code_simp

lemma screening_plain:
  "univariate_feature_screening
       \<lparr>spearmanr = (\<lambda>a b. Inr NaN), corrcoef = (\<lambda>a b. Inr NaN), center_data = no_centering,
        select_percentile = keep_first, gaussian_filter = same_volume,
        binary_erosion = same_mask, binary_dilation = grow_all\<rparr>
       [[1, 2], [3, 4]] [1, 2] [[[False, True, True]]] False 50 2
     = Inr ([[1, 2], [3, 4]], [[[False, True, True]]], [True, True])
   \<and> univariate_feature_screening
       \<lparr>spearmanr = (\<lambda>a b. Inr NaN), corrcoef = (\<lambda>a b. Inr NaN), center_data = no_centering,
        select_percentile = keep_first, gaussian_filter = same_volume,
        binary_erosion = same_mask, binary_dilation = same_mask\<rparr>
       [[1, 2], [3, 4]] [1, 2] [[[False, True, True]]] False 50 2
     = Inr ([[1], [3]], [[[False, True, False]]], [True, False])"
  by code_simp

lemma screening_example:
  "univariate_feature_screening screening_library [[1, 2], [3, 4]] [1, 2]
       [[[False, True, True]]] False 50 2
     = Inr ([[1, 2], [3, 4]], [[[False, True, True]]], [True, True])
   \<and> univariate_feature_screening (example_library\<lparr>select_percentile := keep_first\<rparr>)
       [[1, 2], [3, 4]] [1, 2] [[[False, True, True]]] False 50 2
     = Inr ([[1], [3]], [[[False, True, False]]], [True, False])
   \<and> where3 [[[False, True, True]]] \<noteq> []
   \<and> crop_mask [[[False, True, True]]] = Inr [[[False, True, True]]]
   \<and> crop_mask [[[False, False, False], [False, False, True]]] = Inr [[[False, False], [False, True]]]"
proof -
  have a: "univariate_feature_screening screening_library [[1, 2], [3, 4]] [1, 2]
       [[[False, True, True]]] False 50 2
     = Inr ([[1, 2], [3, 4]], [[[False, True, True]]], [True, True])"
    unfolding conjunct1[OF screening_plain, symmetric]
    by (rule screening_fields) (simp_all add: screening_library_def)
  have b: "univariate_feature_screening (example_library\<lparr>select_percentile := keep_first\<rparr>)
       [[1, 2], [3, 4]] [1, 2] [[[False, True, True]]] False 50 2
     = Inr ([[1], [3]], [[[False, True, False]]], [True, False])"
    unfolding conjunct2[OF screening_plain, symmetric]
    by (rule screening_fields) (simp_all add: example_library_def)
  show ?thesis using a b crop_examples by simp
qed

theorem masks_keep_support_witness:
  "univariate_feature_screening (example_library\<lparr>select_percentile := keep_first\<rparr>)
       [[1, 2], [3, 4]] [1, 2] [[[False, True, True]]] False 50 2
     = Inr ([[1], [3]], [[[False, True, False]]], [True, False])
   \<and> set (where3 [[[False, True, False]]]) \<subseteq> set (where3 [[[False, True, True]]])
   \<and> where3 [[[False, True, True]]] \<noteq> []
   \<and> (\<exists>c i_min i_max j_min j_max k_min k_max.
            crop_bounds [[[False, True, True]]] = Inr (i_min, i_max, j_min, j_max, k_min, k_max)
          \<and> crop_mask [[[False, True, True]]] = Inr c
          \<and> (\<forall>i j k. active c i j k
                \<longleftrightarrow> active [[[False, True, True]]] (i_min + i) (j_min + j) (k_min + k))
          \<and> (\<forall>i j k. active [[[False, True, True]]] i j k
                \<longrightarrow> i_min \<le> i \<and> j_min \<le> j \<and> k_min \<le> k))"
  using masks_keep_support[of "example_library\<lparr>select_percentile := keep_first\<rparr>"
      "[[1, 2], [3, 4]]" "[1, 2]"
      "[[[False, True, True]]]" False 50 2 "[[1], [3]]" "[[[False, True, False]]]"
      "[True, False]"] screening_example
  by (auto simp: where3_active)

section \<open>Properties of the path driver\<close>

lemma test_score_constant:
  assumes "ptp (if es_is_classif self then butlast w else w) = Inr 0"
  shows "test_score lib self w = Inr (NInf, NInf)"
  using assms by (simp add: test_score_def Let_def bind_err_def)

lemma bind_err_InrE:
  assumes "bind_err m f = Inr r"
  obtains x where "m = Inr x" and "f x = Inr r"
  using assms by (auto simp: bind_err_Inr)

lemma score_alpha_Inr:
  assumes "score_alpha lib solve fresh st alpha = Inr st'"
  shows "\<exists>score. st_test_scores st' = st_test_scores st @ [score]
       \<and> ((isfinite score \<and> st_best_alpha st' = alpha \<and> st_best_score st' = score)
          \<or> (st_best_alpha st' = st_best_alpha st \<and> st_best_score st' = st_best_score st
              \<and> \<not> (isfinite score \<and> fgt score (st_best_score st))))"
proof -
  define F :: "'a \<Rightarrow> npfloat \<Rightarrow> npfloat \<Rightarrow> 'a path_state" where
    "F = (\<lambda>i score sec. let st1 = st\<lparr>st_init := Some i,
                      st_test_scores := st_test_scores st @ [score],
                      st_early_stopper := Some fresh\<rparr>
        in (if isfinite score
                   \<and> (fgt score (st_best_score st1)
                       \<or> (feq score (st_best_score st1)
                           \<and> fgt sec (st_best_secundary_score st1)))
                then st1\<lparr>st_best_secundary_score := sec,
                         st_best_score := score,
                         st_best_alpha := alpha,
                         st_best_init := Some i\<rparr>
                else st1))"
  have eq: "score_alpha lib solve fresh st alpha
      = bind_err (solve alpha (st_init st) (Some fresh)) (\<lambda>(w, i).
        bind_err (test_score lib fresh w) (\<lambda>(score, sec). Inr (F i score sec)))"
    unfolding score_alpha_def F_def Let_def by simp
  from assms[unfolded eq] obtain p where sv: "solve alpha (st_init st) (Some fresh) = Inr p"
    and r1: "(\<lambda>(w, i). bind_err (test_score lib fresh w)
               (\<lambda>(score, sec). Inr (F i score sec))) p = Inr st'"
    by (rule bind_err_InrE)
  obtain w i where p: "p = (w, i)" by (cases p)
  from r1[unfolded p] have "bind_err (test_score lib fresh w)
               (\<lambda>(score, sec). Inr (F i score sec)) = Inr st'" by simp
  then obtain q where "test_score lib fresh w = Inr q"
    and r2: "(\<lambda>(score, sec). Inr (F i score sec)) q = (Inr st' :: error + 'a path_state)"
    by (rule bind_err_InrE)
  obtain score sec where q: "q = (score, sec)" by (cases q)
  from r2[unfolded q] have "st' = F i score sec" by simp
  then have st': "st' = (let st1 = st\<lparr>st_init := Some i,
                      st_test_scores := st_test_scores st @ [score],
                      st_early_stopper := Some fresh\<rparr>
        in (if isfinite score
                   \<and> (fgt score (st_best_score st1)
                       \<or> (feq score (st_best_score st1)
                           \<and> fgt sec (st_best_secundary_score st1)))
                then st1\<lparr>st_best_secundary_score := sec,
                         st_best_score := score,
                         st_best_alpha := alpha,
                         st_best_init := Some i\<rparr>
                else st1))"
    unfolding F_def by simp
  show ?thesis
  proof (cases "isfinite score
                   \<and> (fgt score (st_best_score st)
                       \<or> (feq score (st_best_score st)
                           \<and> fgt sec (st_best_secundary_score st)))")
    case True
    then show ?thesis unfolding st' Let_def by simp
  next
    case False
    then show ?thesis unfolding st' Let_def by auto
  qed
qed

lemma fgt_finite_NInf: "isfinite s \<Longrightarrow> fgt s NInf"
  by (cases s) simp_all

lemma alpha_loop_best:
  assumes "alpha_loop lib solve fresh st alphas = Inr st'"
  shows "\<exists>new. st_test_scores st' = st_test_scores st @ new \<and> length new = length alphas
     \<and> ((st_best_alpha st' = st_best_alpha st \<and> st_best_score st' = st_best_score st
          \<and> (st_best_score st = NInf \<longrightarrow> (\<forall>s \<in> set new. \<not> isfinite s)))
        \<or> (\<exists>n<length alphas. st_best_alpha st' = alphas ! n \<and> isfinite (new ! n)
              \<and> st_best_score st' = new ! n))"
  using assms
proof (induction alphas arbitrary: st)
  case Nil
  then show ?case by simp
next
  case (Cons alpha alphas)
  from Cons.prems obtain st1 where s1: "score_alpha lib solve fresh st alpha = Inr st1"
    and rest: "alpha_loop lib solve fresh st1 alphas = Inr st'"
    by (auto simp: bind_err_Inr)
  from score_alpha_Inr[OF s1] obtain score where
    sc: "st_test_scores st1 = st_test_scores st @ [score]"
    and upd: "(isfinite score \<and> st_best_alpha st1 = alpha \<and> st_best_score st1 = score)
          \<or> (st_best_alpha st1 = st_best_alpha st \<and> st_best_score st1 = st_best_score st
              \<and> \<not> (isfinite score \<and> fgt score (st_best_score st)))"
    by blast
  from Cons.IH[OF rest] obtain new where
    n1: "st_test_scores st' = st_test_scores st1 @ new" and n2: "length new = length alphas"
    and ih: "(st_best_alpha st' = st_best_alpha st1 \<and> st_best_score st' = st_best_score st1
          \<and> (st_best_score st1 = NInf \<longrightarrow> (\<forall>s \<in> set new. \<not> isfinite s)))
        \<or> (\<exists>n<length alphas. st_best_alpha st' = alphas ! n \<and> isfinite (new ! n)
              \<and> st_best_score st' = new ! n)"
    by blast
  have a: "st_test_scores st' = st_test_scores st @ (score # new)" using n1 sc by simp
  have b: "length (score # new) = length (alpha # alphas)" using n2 by simp
  have c: "(st_best_alpha st' = st_best_alpha st \<and> st_best_score st' = st_best_score st
          \<and> (st_best_score st = NInf \<longrightarrow> (\<forall>s \<in> set (score # new). \<not> isfinite s)))
        \<or> (\<exists>n<length (alpha # alphas). st_best_alpha st' = (alpha # alphas) ! n
              \<and> isfinite ((score # new) ! n) \<and> st_best_score st' = (score # new) ! n)"
  proof -
    from ih show ?thesis
    proof
      assume later: "\<exists>n<length alphas. st_best_alpha st' = alphas ! n \<and> isfinite (new ! n)
              \<and> st_best_score st' = new ! n"
      then obtain n where "n < length alphas" "st_best_alpha st' = alphas ! n"
        "isfinite (new ! n)" "st_best_score st' = new ! n" by blast
      then have "Suc n < length (alpha # alphas) \<and> st_best_alpha st' = (alpha # alphas) ! Suc n
              \<and> isfinite ((score # new) ! Suc n) \<and> st_best_score st' = (score # new) ! Suc n"
        by simp
      then show ?thesis by blast
    next
      assume same: "st_best_alpha st' = st_best_alpha st1 \<and> st_best_score st' = st_best_score st1
          \<and> (st_best_score st1 = NInf \<longrightarrow> (\<forall>s \<in> set new. \<not> isfinite s))"
      from upd show ?thesis
      proof
        assume "isfinite score \<and> st_best_alpha st1 = alpha \<and> st_best_score st1 = score"
        then have "0 < length (alpha # alphas) \<and> st_best_alpha st' = (alpha # alphas) ! 0
              \<and> isfinite ((score # new) ! 0) \<and> st_best_score st' = (score # new) ! 0"
          using same by simp
        then show ?thesis by blast
      next
        assume keep: "st_best_alpha st1 = st_best_alpha st \<and> st_best_score st1 = st_best_score st
              \<and> \<not> (isfinite score \<and> fgt score (st_best_score st))"
        have "st_best_score st = NInf \<longrightarrow> (\<forall>s \<in> set (score # new). \<not> isfinite s)"
          using keep same fgt_finite_NInf[of score] by auto
        then show ?thesis using keep same by simp
      qed
    qed
  qed
  show ?case using a b c by blast
qed

lemma path_setup_alphas:
  assumes "path_setup lib nm X y msk alphas l1_ratio train test n_alphas eps is_classif
             screening_percentile
           = Inr (X_train, y_train, X_test, y_test, mask2, support, alphas2)"
  shows "alphas2 \<noteq> [] \<and> (\<exists>a. alphas2 = rev (sort a))"
  using assms unfolding path_setup_def Let_def
  by (auto simp: bind_err_Inr split: if_splits)

lemma single_fold_equation:
  "path_scores lib nm solver X y msk alphas l1_ratio train [] n_alphas eps is_classif init key
       debias Xmean ymean screening_percentile verbose
     = bind_err (path_setup lib nm X y msk alphas l1_ratio train [] n_alphas eps is_classif
                   screening_percentile)
         (\<lambda>(X_train, y_train, X_test, y_test, mask2, support, alphas2).
            bind_err (solver X_train y_train (hd alphas2) l1_ratio mask2 init None)
              (\<lambda>(best_w, init').
                 if debias then Inl NameError
                 else bind_err (finish_weights support is_classif (n_features X) Xmean ymean
                                  best_w)
                        (\<lambda>best_w2. Inr ([NaN], best_w2, hd alphas2, key))))"
proof (cases "path_setup lib nm X y msk alphas l1_ratio train [] n_alphas eps is_classif
                   screening_percentile")
  case (Inl e)
  then show ?thesis by (simp add: path_scores_def bind_err_def)
next
  case (Inr t)
  obtain X_train y_train X_test y_test mask2 support alphas2 where
    t: "t = (X_train, y_train, X_test, y_test, mask2, support, alphas2)"
    by (cases t) auto
  show ?thesis
  proof (cases "solver X_train y_train (hd alphas2) l1_ratio mask2 init None")
    case (Inl e)
    then show ?thesis using Inr t by (simp add: path_scores_def bind_err_def)
  next
    case (Inr p)
    obtain best_w init' where p: "p = (best_w, init')" by (cases p)
    show ?thesis using \<open>path_setup lib nm X y msk alphas l1_ratio train [] n_alphas eps is_classif
                   screening_percentile = Inr t\<close> t Inr p
      by (simp add: path_scores_def bind_err_def Let_def split: sum.splits)
  qed
qed

lemma fill_masked_length: "length (fill_masked a m vs) = length a"
  by (induction a m vs rule: fill_masked.induct) (simp_all split: list.splits)

lemma put_masked_length: "put_masked a m vs = Inr r \<Longrightarrow> length r = length a"
  by (auto simp: put_masked_def fill_masked_length split: if_splits)

lemma unscreen_length:
  assumes "unscreen s is_classif w = Inr r"
  shows "length r = length s + (if is_classif then 1 else 0)"
proof (cases is_classif)
  case True
  then obtain w1 where "put_masked (replicate (length s) 0) s (butlast w) = Inr w1"
    and "r = w1 @ [last w]"
    using assms unfolding unscreen_def Let_def
    by (cases "w = []") (auto simp: bind_err_Inr)
  then show ?thesis using True put_masked_length[of "replicate (length s) 0" s "butlast w" w1]
    by simp
next
  case False
  then show ?thesis using assms put_masked_length[of "replicate (length s) 0" s w r]
    by (simp add: unscreen_def Let_def)
qed

lemma finish_weights_length:
  assumes fw: "finish_weights support is_classif p Xmean ymean w = Inr w2"
    and none: "support = None \<Longrightarrow> length w = p + (if is_classif then 1 else 0)"
    and some: "\<And>s. support = Some s \<Longrightarrow> length s = p"
  shows "length w2 = p + 1"
proof -
  from fw obtain w1 where
    w1: "(case support of None \<Rightarrow> Inr w | Some s \<Rightarrow> unscreen s is_classif w) = Inr w1"
    and rest: "(if length w1 = p
          then bind_err (vec_dot (case Xmean of None \<Rightarrow> replicate p 0 | Some m \<Rightarrow> m) w1)
                 (\<lambda>d. Inr (w1 @ [ymean - d]))
          else Inr w1) = Inr w2"
    unfolding finish_weights_def by (rule bind_err_InrE)
  have l1: "length w1 = p + (if is_classif then 1 else 0)"
  proof (cases support)
    case None
    then show ?thesis using w1 none by simp
  next
    case (Some s)
    then show ?thesis using w1 some[OF Some] unscreen_length[of s is_classif w w1] by simp
  qed
  show ?thesis
  proof (cases is_classif)
    case True
    then show ?thesis using l1 rest by simp
  next
    case False
    then have "length w1 = p" using l1 by simp
    then show ?thesis using rest by (auto simp: bind_err_Inr)
  qed
qed

lemma select_columns_length:
  "select_columns X s = Inr X' \<Longrightarrow> X \<noteq> [] \<Longrightarrow> n_features X = length s"
  by (cases X) (auto simp: select_columns_def n_features_def split: if_splits)

lemma screening_support_length:
  assumes "univariate_feature_screening lib X y msk is_classif screening_percentile smooth
             = Inr (X', mask', support')"
    and "X \<noteq> []"
  shows "length support' = n_features X"
proof -
  from assms(1) have "select_columns X support' = Inr X'"
    unfolding univariate_feature_screening_def Let_def bind_err_Inr by auto
  then show ?thesis using assms(2) select_columns_length by fastforce
qed

lemma path_setup_support:
  assumes "path_setup lib nm X y msk alphas l1_ratio train test n_alphas eps is_classif
             screening_percentile
           = Inr (X_train, y_train, X_test, y_test, mask2, Some s, alphas2)"
  shows "length s = n_features X"
proof (cases "100 < n_features X \<and> screening_percentile < 100")
  case True
  then have ne: "X \<noteq> []" by (auto simp: n_features_def)
  from assms True obtain X1 mask1 where
    "univariate_feature_screening lib X y msk is_classif screening_percentile 2
       = Inr (X1, mask1, s)"
    unfolding path_setup_def Let_def
    by (auto simp: bind_err_Inr split: if_splits)
  then show ?thesis using screening_support_length ne by blast
next
  case False
  then have False using assms unfolding path_setup_def Let_def
    by (auto simp: bind_err_Inr split: if_splits)
  then show ?thesis ..
qed

lemma sorted_le_last: "sorted xs \<Longrightarrow> x \<in> set xs \<Longrightarrow> x \<le> (last xs :: real)"
  by (induction xs) auto

lemma descending_hd:
  assumes "alphas2 = rev (sort (a :: real list))" and "b \<in> set alphas2"
  shows "b \<le> hd alphas2"
proof -
  have mem: "b \<in> set (sort a)" using assms by simp
  have ne: "sort a \<noteq> []"
  proof
    assume "sort a = []"
    then have "set (sort a) = {}" by (simp only: set_empty)
    then show False using mem by (simp only: empty_iff)
  qed
  have "b \<le> last (sort a)" using sorted_le_last[of "sort a" b] mem by simp
  then show ?thesis using ne assms(1) by (simp add: hd_rev)
qed

lemma crop_single: "crop_mask [[[True]]] = Inr [[[True]]]"
  by code_simp

lemma setup_two_fold:
  "path_setup example_library exact_arithmetic [[1], [2], [3]] [1, 2, 3] [[[True]]] (Some [1, 2]) (1 / 2)
       [0, 1] [2] 10 (1 / 1000) False 20
     = Inr ([[1], [2]], [1, 2], [[3]], [3], [[[True]]], None, [2, 1])"
  by (simp add: path_setup_def n_features_def bind_err_def crop_single take_rows_def
      example_library_def no_centering_def)

lemma loop_two_fold:
  "alpha_loop example_library (\<lambda>alpha i cb. flat_solver 0 [[1], [2]] [1, 2] alpha (1 / 2) [[[True]]] i cb)
       (EarlyStoppingCallback [[3]] [3] False False 0 0)
       \<lparr>st_init = None, st_test_scores = [], st_best_score = NInf,
                st_best_secundary_score = NInf, st_best_alpha = 2,
                st_best_init = None, st_early_stopper = None\<rparr> [2, 1]
     = Inr \<lparr>st_init = Some (), st_test_scores = [NInf, NInf], st_best_score = NInf,
                st_best_secundary_score = NInf, st_best_alpha = 2,
                st_best_init = None,
                st_early_stopper = Some (EarlyStoppingCallback [[3]] [3] False False 0 0)\<rparr>"
proof -
  have z: "test_score example_library (EarlyStoppingCallback [[3]] [3] False False 0 0) [a]
     = Inr (NInf, NInf)" for a
    by (rule test_score_constant) (simp add: EarlyStoppingCallback_def)
  show ?thesis
    by (simp add: score_alpha_def flat_solver_def n_features_def bind_err_def Let_def z)
qed

lemma path_scores_scored_Inr:
  assumes ps: "path_scores lib nm solver X y msk alphas l1_ratio train test n_alphas eps
        is_classif init key debias Xmean ymean screening_percentile verbose
      = Inr (test_scores, best_w, best_alpha, key')"
    and ne: "test \<noteq> []"
  shows "\<exists>X_train y_train X_test y_test mask2 support alphas2.
       path_setup lib nm X y msk alphas l1_ratio train test n_alphas eps is_classif
           screening_percentile
         = Inr (X_train, y_train, X_test, y_test, mask2, support, alphas2)
     \<and> length test_scores = length alphas2
     \<and> ((\<exists>n<length alphas2. best_alpha = alphas2 ! n \<and> isfinite (test_scores ! n))
         \<or> ((\<forall>n<length alphas2. \<not> isfinite (test_scores ! n)) \<and> best_alpha = alphas2 ! 0))"
proof -
  from ps obtain t where su: "path_setup lib nm X y msk alphas l1_ratio train test n_alphas eps
        is_classif screening_percentile = Inr t"
    unfolding path_scores_def by (rule bind_err_InrE)
  obtain X_train y_train X_test y_test mask2 support alphas2 where
    t: "t = (X_train, y_train, X_test, y_test, mask2, support, alphas2)"
    by (cases t) auto
  define solve where "solve = (\<lambda>alpha i cb. solver X_train y_train alpha l1_ratio mask2 i cb)"
  define st0 where "st0 = \<lparr>st_init = init, st_test_scores = [], st_best_score = NInf,
                st_best_secundary_score = NInf, st_best_alpha = hd alphas2,
                st_best_init = init, st_early_stopper = None\<rparr>"
  define fresh where "fresh = EarlyStoppingCallback X_test y_test is_classif debias ymean verbose"
  have "bind_err (alpha_loop lib solve fresh st0 alphas2) (\<lambda>st.
     bind_err (solve (st_best_alpha st) (st_best_init st) None) (\<lambda>(best_w, init').
     bind_err
       (if debias
        then (case st_early_stopper st of
                None \<Rightarrow> Inl NameError
              | Some early_stopper \<Rightarrow> debias_w early_stopper best_w)
        else Inr best_w) (\<lambda>best_w1.
     bind_err (finish_weights support is_classif (n_features X) Xmean ymean best_w1)
       (\<lambda>best_w2. Inr (st_test_scores st, best_w2, st_best_alpha st, key)))))
     = Inr (test_scores, best_w, best_alpha, key')"
    using ps ne unfolding path_scores_def su t solve_def st0_def fresh_def
    by (simp add: bind_err_def Let_def)
  then obtain st where loop: "alpha_loop lib solve fresh st0 alphas2 = Inr st"
    and r: "bind_err (solve (st_best_alpha st) (st_best_init st) None) (\<lambda>(best_w, init').
     bind_err
       (if debias
        then (case st_early_stopper st of
                None \<Rightarrow> Inl NameError
              | Some early_stopper \<Rightarrow> debias_w early_stopper best_w)
        else Inr best_w) (\<lambda>best_w1.
     bind_err (finish_weights support is_classif (n_features X) Xmean ymean best_w1)
       (\<lambda>best_w2. Inr (st_test_scores st, best_w2, st_best_alpha st, key))))
     = Inr (test_scores, best_w, best_alpha, key')"
    by (rule bind_err_InrE)
  have res: "test_scores = st_test_scores st \<and> best_alpha = st_best_alpha st"
    using r by (auto simp: bind_err_Inr)
  have ne2: "alphas2 \<noteq> []" using path_setup_alphas su t by blast
  from alpha_loop_best[OF loop] obtain new where
    n1: "st_test_scores st = new" and n2: "length new = length alphas2"
    and n3: "(st_best_alpha st = hd alphas2 \<and> (\<forall>s \<in> set new. \<not> isfinite s))
        \<or> (\<exists>n<length alphas2. st_best_alpha st = alphas2 ! n \<and> isfinite (new ! n))"
    unfolding st0_def by auto
  have "(\<exists>n<length alphas2. best_alpha = alphas2 ! n \<and> isfinite (test_scores ! n))
         \<or> ((\<forall>n<length alphas2. \<not> isfinite (test_scores ! n)) \<and> best_alpha = alphas2 ! 0)"
    using n3
  proof
    assume "st_best_alpha st = hd alphas2 \<and> (\<forall>s \<in> set new. \<not> isfinite s)"
    then have "(\<forall>n<length alphas2. \<not> isfinite (test_scores ! n)) \<and> best_alpha = alphas2 ! 0"
      using res n1 n2 ne2 by (simp add: hd_conv_nth)
    then show ?thesis ..
  next
    assume "\<exists>n<length alphas2. st_best_alpha st = alphas2 ! n \<and> isfinite (new ! n)"
    then have "\<exists>n<length alphas2. best_alpha = alphas2 ! n \<and> isfinite (test_scores ! n)"
      using res n1 by simp
    then show ?thesis ..
  qed
  then show ?thesis using su t res n1 n2 by auto
qed

lemma crop_pair: "crop_mask [[[True, True]]] = Inr [[[True, True]]]"
  by code_simp

text \<open>
  A run with two training samples and three held-out samples: at \<open>alpha = 1\<close> the
  weights \<open>(1, 0)\<close> predict the held-out response \<open>(1, 2, 3)\<close> itself, with
  correlation 1; at \<open>alpha = 0\<close> the weights are constant.
\<close>

lemma setup_spike:
  "path_setup example_library exact_arithmetic [[1, 0], [2, 1], [1, 0], [2, 0], [3, 5]]
       [1, 2, 1, 2, 3] [[[True, True]]] (Some [0, 1]) (1 / 2) [0, 1] [2, 3, 4] 10 (1 / 1000)
       False 20
     = Inr ([[1, 0], [2, 1]], [1, 2], [[1, 0], [2, 0], [3, 5]], [1, 2, 3], [[[True, True]]],
            None, [1, 0])"
  by (simp add: path_setup_def n_features_def bind_err_def crop_pair take_rows_def
      example_library_def no_centering_def)

lemma test_score_spike:
  "test_score example_library
       (EarlyStoppingCallback [[1, 0], [2, 0], [3, 5]] [1, 2, 3] False False 0 0) [1, 0]
     = Inr (Fin 1, Fin 1)"
proof -
  have p: "pearson_correlation [1, 2, 3] [1, 2, 3] = Inr (Fin 1)"
    by (simp add: pearson_correlation_def Let_def)
  have r: "rankdata [1, 2, 3] = [1, 2, 3]"
    by (simp add: rankdata_def)
  show ?thesis
    by (simp add: test_score_def EarlyStoppingCallback_def Let_def bind_err_def mat_vec_def
        dot_def example_library_def spearman_correlation_def r p)
qed

lemma loop_spike:
  "alpha_loop example_library
       (\<lambda>alpha i cb. spike_solver [[1, 0], [2, 1]] [1, 2] alpha (1 / 2) [[[True, True]]] i cb)
       (EarlyStoppingCallback [[1, 0], [2, 0], [3, 5]] [1, 2, 3] False False 0 0)
       \<lparr>st_init = None, st_test_scores = [], st_best_score = NInf,
                st_best_secundary_score = NInf, st_best_alpha = 1,
                st_best_init = None, st_early_stopper = None\<rparr> [1, 0]
     = Inr \<lparr>st_init = Some (), st_test_scores = [Fin 1, NInf], st_best_score = Fin 1,
                st_best_secundary_score = Fin 1, st_best_alpha = 1,
                st_best_init = Some (),
                st_early_stopper = Some (EarlyStoppingCallback [[1, 0], [2, 0], [3, 5]] [1, 2, 3]
                                           False False 0 0)\<rparr>"
proof -
  have z: "test_score example_library
       (EarlyStoppingCallback [[1, 0], [2, 0], [3, 5]] [1, 2, 3] False False 0 0) [0, 0]
     = Inr (NInf, NInf)"
    by (rule test_score_constant) (simp add: EarlyStoppingCallback_def)
  show ?thesis
    by (simp add: score_alpha_def spike_solver_def n_features_def bind_err_def Let_def
        test_score_spike z)
qed

lemma path_scores_spike:
  "path_scores example_library exact_arithmetic spike_solver
       [[1, 0], [2, 1], [1, 0], [2, 0], [3, 5]] [1, 2, 1, 2, 3]
       [[[True, True]]] (Some [0, 1]) (1 / 2) [0, 1] [2, 3, 4] 10 (1 / 1000) False None () False
       None 0 20 0
     = Inr ([Fin 1, NInf], [1, 0, 0], 1, ())"
  unfolding path_scores_def setup_spike
  by (simp add: bind_err_def loop_spike spike_solver_def n_features_def finish_weights_def
      vec_dot_def dot_def del: alpha_loop.simps)

lemma score_alpha_example:
  "score_alpha example_library example_solve example_stopper example_state 0
     = Inr (example_state\<lparr>st_init := Some (), st_test_scores := [NInf],
              st_early_stopper := Some example_stopper\<rparr>)
   \<and> test_score example_library example_stopper [3, 3] = Inr (NInf, NInf)
   \<and> ptp [3, 3] = Inr 0"
proof -
  have z: "test_score example_library example_stopper [0, 0] = Inr (NInf, NInf)"
    by (rule test_score_constant) (simp add: example_stopper_def EarlyStoppingCallback_def)
  have c: "test_score example_library example_stopper [3, 3] = Inr (NInf, NInf)"
    by (rule test_score_constant) (simp add: example_stopper_def EarlyStoppingCallback_def)
  show ?thesis
    by (simp add: score_alpha_def example_solve_def spike_solver_def n_features_def bind_err_def
        Let_def z c example_state_def)
qed

text \<open>
  Claim C6, as amended. A weight map whose coefficients (without the intercept, for a
  classifier) have zero range scores \<open>(-inf, -inf)\<close>; one pass of the alpha loop
  whose score is \<open>-inf\<close> leaves the best alpha and the best score as they were; and
  when \<open>path_scores\<close> returns with a non-empty test set, either the returned best
  alpha is an alpha of the grid with a finite score, or no alpha of the grid has a finite
  score and the returned best alpha is the default, the first alpha of the grid.
\<close>

theorem constant_weights_never_selected:
  "(ptp (if es_is_classif self then butlast w else w) = Inr 0
      \<longrightarrow> test_score lib self w = Inr (NInf, NInf))
   \<and> (score_alpha lib solve fresh st alpha = Inr st' \<and> last (st_test_scores st') = NInf
      \<longrightarrow> st_best_alpha st' = st_best_alpha st \<and> st_best_score st' = st_best_score st)
   \<and> (test \<noteq> []
       \<and> path_scores lib nm solver X y msk alphas l1_ratio train test n_alphas eps
            is_classif init key debias Xmean ymean screening_percentile verbose
          = Inr (test_scores, best_w, best_alpha, key')
      \<longrightarrow> (\<exists>X_train y_train X_test y_test mask2 support alphas2.
             path_setup lib nm X y msk alphas l1_ratio train test n_alphas eps is_classif
                 screening_percentile
               = Inr (X_train, y_train, X_test, y_test, mask2, support, alphas2)
           \<and> length test_scores = length alphas2
           \<and> ((\<exists>n<length alphas2. best_alpha = alphas2 ! n \<and> isfinite (test_scores ! n))
               \<or> ((\<forall>n<length alphas2. \<not> isfinite (test_scores ! n))
                   \<and> best_alpha = alphas2 ! 0))))"
proof (intro conjI impI)
  assume "ptp (if es_is_classif self then butlast w else w) = Inr 0"
  then show "test_score lib self w = Inr (NInf, NInf)" by (rule test_score_constant)
next
  assume a: "score_alpha lib solve fresh st alpha = Inr st' \<and> last (st_test_scores st') = NInf"
  from score_alpha_Inr[of lib solve fresh st alpha st'] a obtain score where
    "st_test_scores st' = st_test_scores st @ [score]"
    and "(isfinite score \<and> st_best_alpha st' = alpha \<and> st_best_score st' = score)
          \<or> (st_best_alpha st' = st_best_alpha st \<and> st_best_score st' = st_best_score st
              \<and> \<not> (isfinite score \<and> fgt score (st_best_score st)))"
    by blast
  moreover from this a have "score = NInf" by simp
  ultimately show "st_best_alpha st' = st_best_alpha st" "st_best_score st' = st_best_score st"
    by auto
next
  assume "test \<noteq> []
       \<and> path_scores lib nm solver X y msk alphas l1_ratio train test n_alphas eps
            is_classif init key debias Xmean ymean screening_percentile verbose
          = Inr (test_scores, best_w, best_alpha, key')"
  then have ne: "test \<noteq> []"
    and ps: "path_scores lib nm solver X y msk alphas l1_ratio train test n_alphas eps
            is_classif init key debias Xmean ymean screening_percentile verbose
          = Inr (test_scores, best_w, best_alpha, key')"
    by simp_all
  show "\<exists>X_train y_train X_test y_test mask2 support alphas2.
             path_setup lib nm X y msk alphas l1_ratio train test n_alphas eps is_classif
                 screening_percentile
               = Inr (X_train, y_train, X_test, y_test, mask2, support, alphas2)
           \<and> length test_scores = length alphas2
           \<and> ((\<exists>n<length alphas2. best_alpha = alphas2 ! n \<and> isfinite (test_scores ! n))
               \<or> ((\<forall>n<length alphas2. \<not> isfinite (test_scores ! n))
                   \<and> best_alpha = alphas2 ! 0))"
    by (rule path_scores_scored_Inr[OF ps ne])
qed

theorem constant_weights_never_selected_witness:
  "test_score example_library example_stopper [3, 3] = Inr (NInf, NInf)
   \<and> st_best_alpha (example_state\<lparr>st_init := Some (), st_test_scores := [NInf],
              st_early_stopper := Some example_stopper\<rparr>) = st_best_alpha example_state
   \<and> path_scores example_library exact_arithmetic spike_solver
       [[1, 0], [2, 1], [1, 0], [2, 0], [3, 5]] [1, 2, 1, 2, 3]
       [[[True, True]]] (Some [0, 1]) (1 / 2) [0, 1] [2, 3, 4] 10 (1 / 1000) False None () False
       None 0 20 0
     = Inr ([Fin 1, NInf], [1, 0, 0], 1, ())
   \<and> (\<exists>X_train y_train X_test y_test mask2 support alphas2.
         path_setup example_library exact_arithmetic [[1, 0], [2, 1], [1, 0], [2, 0], [3, 5]]
             [1, 2, 1, 2, 3] [[[True, True]]] (Some [0, 1]) (1 / 2) [0, 1] [2, 3, 4] 10
             (1 / 1000) False 20
           = Inr (X_train, y_train, X_test, y_test, mask2, support, alphas2)
       \<and> length [Fin 1, NInf] = length alphas2
       \<and> ((\<exists>n<length alphas2. 1 = alphas2 ! n \<and> isfinite ([Fin 1, NInf] ! n))
           \<or> ((\<forall>n<length alphas2. \<not> isfinite ([Fin 1, NInf] ! n)) \<and> 1 = alphas2 ! 0)))"
  using constant_weights_never_selected[where self = example_stopper and w = "[3, 3]"
      and lib = example_library and solve = example_solve and fresh = example_stopper
      and st = example_state and alpha = 0
      and st' = "example_state\<lparr>st_init := Some (), st_test_scores := [NInf],
              st_early_stopper := Some example_stopper\<rparr>"
      and nm = exact_arithmetic
      and test = "[2, 3, 4]" and solver = spike_solver
      and X = "[[1, 0], [2, 1], [1, 0], [2, 0], [3, 5]]"
      and y = "[1, 2, 1, 2, 3]" and msk = "[[[True, True]]]" and alphas = "Some [0, 1]"
      and ?l1_ratio = "1 / 2" and train = "[0, 1]" and n_alphas = 10 and eps = "1 / 1000"
      and is_classif = False and init = None and key = "()" and debias = False
      and Xmean = None and ymean = 0 and screening_percentile = 20 and verbose = 0
      and test_scores = "[Fin 1, NInf]" and best_w = "[1, 0, 0]" and best_alpha = 1
      and key' = "()"]
    path_scores_spike score_alpha_example
  by (simp add: example_stopper_def EarlyStoppingCallback_def)

text \<open>
  Claim C6 as stated fails for the default: when every alpha yields a constant weight
  map, the first alpha of the descending grid is returned as best alpha although its
  score is \<open>-inf\<close>.
\<close>

theorem constant_weights_win_by_default_counterexample:
  "path_scores example_library exact_arithmetic (flat_solver 0) [[1], [2], [3]] [1, 2, 3] [[[True]]]
       (Some [1, 2]) (1 / 2) [0, 1] [2] 10 (1 / 1000) False None () False None 0 20 0
     = Inr ([NInf, NInf], [2, 0], 2, ())"
  unfolding path_scores_def setup_two_fold
  by (simp add: bind_err_def loop_two_fold flat_solver_def n_features_def finish_weights_def
      vec_dot_def dot_def del: alpha_loop.simps)

subsection \<open>The single-fold path\<close>

text \<open>
  With an empty test set and without debiasing, \<open>path_scores\<close> is the setup followed
  by one solve without callback at the first alpha of the descending grid, from the
  initial warm-start state: no alpha is scored. Whenever it returns, the scores are
  \<open>[nan]\<close>, the best alpha is the first and largest alpha of the grid, and the
  weights are those of that one solve, completed to one entry per feature plus the
  intercept provided the solver returned one weight per feature (and the intercept, for a
  classifier).
\<close>

lemma single_fold_result:
  "path_scores lib nm solver X y msk alphas l1_ratio train [] n_alphas eps is_classif init key
       debias Xmean ymean screening_percentile verbose
     = bind_err (path_setup lib nm X y msk alphas l1_ratio train [] n_alphas eps is_classif
                   screening_percentile)
         (\<lambda>(X_train, y_train, X_test, y_test, mask2, support, alphas2).
            bind_err (solver X_train y_train (hd alphas2) l1_ratio mask2 init None)
              (\<lambda>(best_w, init').
                 if debias then Inl NameError
                 else bind_err (finish_weights support is_classif (n_features X) Xmean ymean
                                  best_w)
                        (\<lambda>best_w2. Inr ([NaN], best_w2, hd alphas2, key))))
   \<and> (path_scores lib nm solver X y msk alphas l1_ratio train [] n_alphas eps is_classif init key
       debias Xmean ymean screening_percentile verbose = Inr (test_scores, w, best_alpha, key')
      \<longrightarrow> test_scores = [NaN] \<and> length test_scores = 1 \<and> key' = key
        \<and> (\<exists>X_train y_train X_test y_test mask2 support alphas2 best_w init'.
              path_setup lib nm X y msk alphas l1_ratio train [] n_alphas eps is_classif
                  screening_percentile
                = Inr (X_train, y_train, X_test, y_test, mask2, support, alphas2)
            \<and> alphas2 \<noteq> [] \<and> best_alpha = hd alphas2 \<and> (\<forall>b \<in> set alphas2. b \<le> best_alpha)
            \<and> solver X_train y_train best_alpha l1_ratio mask2 init None = Inr (best_w, init')
            \<and> finish_weights support is_classif (n_features X) Xmean ymean best_w = Inr w
            \<and> ((support = None
                   \<longrightarrow> length best_w = n_features X + (if is_classif then 1 else 0))
                 \<longrightarrow> length w = n_features X + 1)))"
proof (intro conjI impI)
  show "path_scores lib nm solver X y msk alphas l1_ratio train [] n_alphas eps is_classif init key
       debias Xmean ymean screening_percentile verbose
     = bind_err (path_setup lib nm X y msk alphas l1_ratio train [] n_alphas eps is_classif
                   screening_percentile)
         (\<lambda>(X_train, y_train, X_test, y_test, mask2, support, alphas2).
            bind_err (solver X_train y_train (hd alphas2) l1_ratio mask2 init None)
              (\<lambda>(best_w, init').
                 if debias then Inl NameError
                 else bind_err (finish_weights support is_classif (n_features X) Xmean ymean
                                  best_w)
                        (\<lambda>best_w2. Inr ([NaN], best_w2, hd alphas2, key))))"
    by (rule single_fold_equation)
next
  assume ps: "path_scores lib nm solver X y msk alphas l1_ratio train [] n_alphas eps is_classif
       init key debias Xmean ymean screening_percentile verbose
     = Inr (test_scores, w, best_alpha, key')"
  from ps[unfolded single_fold_equation] obtain t where
    su: "path_setup lib nm X y msk alphas l1_ratio train [] n_alphas eps is_classif
           screening_percentile = Inr t"
    and r1: "(\<lambda>(X_train, y_train, X_test, y_test, mask2, support, alphas2).
            bind_err (solver X_train y_train (hd alphas2) l1_ratio mask2 init None)
              (\<lambda>(best_w, init').
                 if debias then Inl NameError
                 else bind_err (finish_weights support is_classif (n_features X) Xmean ymean
                                  best_w)
                        (\<lambda>best_w2. Inr ([NaN], best_w2, hd alphas2, key)))) t
          = Inr (test_scores, w, best_alpha, key')"
    by (rule bind_err_InrE)
  obtain X_train y_train X_test y_test mask2 support alphas2 where
    t: "t = (X_train, y_train, X_test, y_test, mask2, support, alphas2)"
    by (cases t) auto
  from r1[unfolded t] have "bind_err (solver X_train y_train (hd alphas2) l1_ratio mask2 init None)
              (\<lambda>(best_w, init').
                 if debias then Inl NameError
                 else bind_err (finish_weights support is_classif (n_features X) Xmean ymean
                                  best_w)
                        (\<lambda>best_w2. Inr ([NaN], best_w2, hd alphas2, key)))
          = Inr (test_scores, w, best_alpha, key')"
    by simp
  then obtain p where sv: "solver X_train y_train (hd alphas2) l1_ratio mask2 init None = Inr p"
    and r2: "(\<lambda>(best_w, init').
                 if debias then Inl NameError
                 else bind_err (finish_weights support is_classif (n_features X) Xmean ymean
                                  best_w)
                        (\<lambda>best_w2. Inr ([NaN], best_w2, hd alphas2, key))) p
          = Inr (test_scores, w, best_alpha, key')"
    by (rule bind_err_InrE)
  obtain best_w init' where p: "p = (best_w, init')" by (cases p)
  from r2[unfolded p] have nd: "\<not> debias"
    and r3: "bind_err (finish_weights support is_classif (n_features X) Xmean ymean best_w)
                        (\<lambda>best_w2. Inr ([NaN], best_w2, hd alphas2, key))
          = Inr (test_scores, w, best_alpha, key')"
    by (simp_all split: if_splits)
  from r3 have fw: "finish_weights support is_classif (n_features X) Xmean ymean best_w = Inr w"
    and res: "test_scores = [NaN]" "best_alpha = hd alphas2" "key' = key"
    by (auto simp: bind_err_Inr)
  have al: "alphas2 \<noteq> []" and srt: "\<exists>a. alphas2 = rev (sort a)"
    using path_setup_alphas[OF su[unfolded t]] by simp_all
  have mx: "\<forall>b \<in> set alphas2. b \<le> best_alpha"
    using srt descending_hd res(2) by blast
  have len: "length w = n_features X + 1"
    if "support = None \<longrightarrow> length best_w = n_features X + (if is_classif then 1 else 0)"
  proof (rule finish_weights_length[OF fw])
    show "support = None \<Longrightarrow> length best_w = n_features X + (if is_classif then 1 else 0)"
      using that by simp
  next
    fix s assume "support = Some s"
    then show "length s = n_features X"
      using path_setup_support su t by blast
  qed
  show "test_scores = [NaN]" by (rule res(1))
  show "length test_scores = 1" using res(1) by simp
  show "key' = key" by (rule res(3))
  show "\<exists>X_train y_train X_test y_test mask2 support alphas2 best_w init'.
              path_setup lib nm X y msk alphas l1_ratio train [] n_alphas eps is_classif
                  screening_percentile
                = Inr (X_train, y_train, X_test, y_test, mask2, support, alphas2)
            \<and> alphas2 \<noteq> [] \<and> best_alpha = hd alphas2 \<and> (\<forall>b \<in> set alphas2. b \<le> best_alpha)
            \<and> solver X_train y_train best_alpha l1_ratio mask2 init None = Inr (best_w, init')
            \<and> finish_weights support is_classif (n_features X) Xmean ymean best_w = Inr w
            \<and> ((support = None
                   \<longrightarrow> length best_w = n_features X + (if is_classif then 1 else 0))
                 \<longrightarrow> length w = n_features X + 1)"
    using su t al res(2) mx sv p fw len by blast
qed

text \<open>
  What the completion of the weights does: the screening is undone by writing the weights
  at the selected positions of a vector of zeros, and the intercept
  \<open>ymean - np.dot(Xmean, best_w)\<close> is appended when there is one weight per feature.
\<close>

lemma fill_masked_take:
  "length a = length m \<Longrightarrow> length vs = count_true m
     \<Longrightarrow> take_masked (fill_masked a m vs) m = vs"
proof (induction a m vs rule: fill_masked.induct)
  case (1 b bs m ms vs)
  then show ?case
    by (cases vs) (auto simp: take_masked_def count_true_def)
qed (simp_all add: take_masked_def count_true_def)

lemma fill_masked_keep:
  "length a = length m \<Longrightarrow> i < length a \<Longrightarrow> \<not> m ! i \<Longrightarrow> fill_masked a m vs ! i = a ! i"
proof (induction a m vs arbitrary: i rule: fill_masked.induct)
  case (1 b bs m ms vs)
  then show ?case
    by (cases i; cases vs) auto
qed simp_all

lemma unscreen_regression:
  assumes "unscreen s False w = Inr r" and "length w = count_true s"
  shows "length r = length s \<and> take_masked r s = w \<and> (\<forall>i<length s. \<not> s ! i \<longrightarrow> r ! i = 0)"
proof -
  have r: "r = fill_masked (replicate (length s) 0) s w"
    using assms by (simp add: unscreen_def put_masked_def)
  show ?thesis unfolding r
    using fill_masked_take[of "replicate (length s) 0" s w] assms(2)
      fill_masked_keep[of "replicate (length s) 0" s _ w]
    by (simp add: fill_masked_length)
qed

lemma unscreen_classification:
  assumes "unscreen s True w = Inr r" and "length w = count_true s + 1"
  shows "length r = length s + 1 \<and> take_masked (butlast r) s = butlast w \<and> last r = last w
     \<and> (\<forall>i<length s. \<not> s ! i \<longrightarrow> r ! i = 0)"
proof -
  have ne: "w \<noteq> []" using assms(2) by auto
  have r: "r = fill_masked (replicate (length s) 0) s (butlast w) @ [last w]"
    using assms ne by (simp add: unscreen_def put_masked_def bind_err_def)
  have k: "\<forall>i<length s. \<not> s ! i \<longrightarrow> fill_masked (replicate (length s) 0) s (butlast w) ! i = 0"
    using fill_masked_keep[of "replicate (length s) 0" s _ "butlast w"] by simp
  show ?thesis unfolding r
    using fill_masked_take[of "replicate (length s) 0" s "butlast w"] assms(2) k
    by (simp add: fill_masked_length nth_append)
qed

lemma finish_weights_intercept:
  assumes "finish_weights support is_classif p Xmean ymean best_w = Inr w"
  shows "\<exists>w1. (case support of None \<Rightarrow> Inr best_w | Some s \<Rightarrow> unscreen s is_classif best_w) = Inr w1
     \<and> w = (if length w1 = p
            then w1 @ [ymean - dot (case Xmean of None \<Rightarrow> replicate p 0 | Some m \<Rightarrow> m) w1]
            else w1)"
proof -
  from assms obtain w1 where
    w1: "(case support of None \<Rightarrow> Inr best_w | Some s \<Rightarrow> unscreen s is_classif best_w) = Inr w1"
    and rest: "(if length w1 = p
          then bind_err (vec_dot (case Xmean of None \<Rightarrow> replicate p 0 | Some m \<Rightarrow> m) w1)
                 (\<lambda>d. Inr (w1 @ [ymean - d]))
          else Inr w1) = Inr w"
    unfolding finish_weights_def by (rule bind_err_InrE)
  have "w = (if length w1 = p
            then w1 @ [ymean - dot (case Xmean of None \<Rightarrow> replicate p 0 | Some m \<Rightarrow> m) w1]
            else w1)"
    using rest by (auto simp: bind_err_Inr vec_dot_def split: if_splits)
  then show ?thesis using w1 by blast
qed

text \<open>A call with a single alpha, as \<open>fit\<close> makes it when \<open>alpha\<close> is given.\<close>

lemma setup_one_alpha:
  "path_setup example_library exact_arithmetic [[1, 0], [2, 1], [- 1, 0]] [1, 2, 3]
       [[[True, True]]] (Some [1]) (1 / 2) [0, 1, 2] [] 10 (1 / 1000) False 20
     = Inr ([[1, 0], [2, 1], [- 1, 0]], [1, 2, 3], [], [], [[[True, True]]], None, [1])"
  by (simp add: path_setup_def n_features_def bind_err_def crop_pair take_rows_def
      example_library_def no_centering_def)

lemma one_alpha_debias:
  "path_scores example_library exact_arithmetic (flat_solver 0) [[1, 0], [2, 1], [- 1, 0]]
       [1, 2, 3] [[[True, True]]] (Some [1]) (1 / 2) [0, 1, 2] [] 10 (1 / 1000) False None ()
       True (Some [2, 1]) 7 20 0
     = Inl NameError"
  unfolding single_fold_equation setup_one_alpha
  by (simp add: bind_err_def flat_solver_def)

lemma one_alpha_plain:
  "path_scores example_library exact_arithmetic (flat_solver 0) [[1, 0], [2, 1], [- 1, 0]]
       [1, 2, 3] [[[True, True]]] (Some [1]) (1 / 2) [0, 1, 2] [] 10 (1 / 1000) False None ()
       False (Some [2, 1]) 7 20 0
     = Inr ([NaN], [1, 1, 4], 1, ())"
  unfolding single_fold_equation setup_one_alpha
  by (simp add: bind_err_def flat_solver_def n_features_def finish_weights_def vec_dot_def dot_def)

text \<open>
  Claim C7. With an empty test set and \<open>debias\<close> set, \<open>path_scores\<close> never returns:
  after the one solve it calls \<open>early_stopper._debias\<close>, but the name
  \<open>early_stopper\<close> is bound only inside the scoring loop, which an empty test set
  skips. On the training data of three samples with the single alpha 1 the call raises;
  the same call without \<open>debias\<close> returns the scores \<open>[nan]\<close>, the weights of the
  one solve with the intercept \<open>ymean - np.dot(Xmean, w)\<close> appended, and the alpha.
\<close>

theorem single_fold_debias_raises:
  "path_scores lib nm solver X y msk alphas l1_ratio train [] n_alphas eps is_classif init key
       True Xmean ymean screening_percentile verbose \<noteq> Inr r
   \<and> path_scores example_library exact_arithmetic (flat_solver 0) [[1, 0], [2, 1], [- 1, 0]]
       [1, 2, 3] [[[True, True]]] (Some [1]) (1 / 2) [0, 1, 2] [] 10 (1 / 1000) False None ()
       True (Some [2, 1]) 7 20 0
     = Inl NameError
   \<and> path_scores example_library exact_arithmetic (flat_solver 0) [[1, 0], [2, 1], [- 1, 0]]
       [1, 2, 3] [[[True, True]]] (Some [1]) (1 / 2) [0, 1, 2] [] 10 (1 / 1000) False None ()
       False (Some [2, 1]) 7 20 0
     = Inr ([NaN], [1, 1, 4], 1, ())"
proof (intro conjI)
  show "path_scores lib nm solver X y msk alphas l1_ratio train [] n_alphas eps is_classif init
       key True Xmean ymean screening_percentile verbose \<noteq> Inr r"
  proof
    assume a: "path_scores lib nm solver X y msk alphas l1_ratio train [] n_alphas eps is_classif
         init key True Xmean ymean screening_percentile verbose = Inr r"
    from a[unfolded single_fold_equation] obtain t where
      su: "path_setup lib nm X y msk alphas l1_ratio train [] n_alphas eps is_classif
             screening_percentile = Inr t"
      and r1: "(\<lambda>(X_train, y_train, X_test, y_test, mask2, support, alphas2).
              bind_err (solver X_train y_train (hd alphas2) l1_ratio mask2 init None)
                (\<lambda>(best_w, init').
                   if True then Inl NameError
                   else bind_err (finish_weights support is_classif (n_features X) Xmean ymean
                                    best_w)
                          (\<lambda>best_w2. Inr ([NaN], best_w2, hd alphas2, key)))) t
            = Inr r"
      by (rule bind_err_InrE)
    obtain X_train y_train X_test y_test mask2 support alphas2 where
      t: "t = (X_train, y_train, X_test, y_test, mask2, support, alphas2)"
      by (cases t) auto
    from r1[unfolded t] have "bind_err (solver X_train y_train (hd alphas2) l1_ratio mask2 init None)
                (\<lambda>(best_w, init'). Inl NameError) = Inr r"
      by simp
    then obtain p where "solver X_train y_train (hd alphas2) l1_ratio mask2 init None = Inr p"
      and "(\<lambda>(best_w, init'). Inl NameError) p = Inr r"
      by (rule bind_err_InrE)
    then show False by (cases p) simp
  qed
  show "path_scores example_library exact_arithmetic (flat_solver 0) [[1, 0], [2, 1], [- 1, 0]]
       [1, 2, 3] [[[True, True]]] (Some [1]) (1 / 2) [0, 1, 2] [] 10 (1 / 1000) False None ()
       True (Some [2, 1]) 7 20 0
     = Inl NameError"
    by (rule one_alpha_debias)
  show "path_scores example_library exact_arithmetic (flat_solver 0) [[1, 0], [2, 1], [- 1, 0]]
       [1, 2, 3] [[[True, True]]] (Some [1]) (1 / 2) [0, 1, 2] [] 10 (1 / 1000) False None ()
       False (Some [2, 1]) 7 20 0
     = Inr ([NaN], [1, 1, 4], 1, ())"
    by (rule one_alpha_plain)
qed

theorem single_fold_debias_raises_witness:
  "path_scores example_library exact_arithmetic (flat_solver 0) [[1, 0], [2, 1], [- 1, 0]]
       [1, 2, 3] [[[True, True]]] (Some [1]) (1 / 2) [0, 1, 2] [] 10 (1 / 1000) False None ()
       True (Some [2, 1]) 7 20 0
     \<noteq> Inr ([NaN], [1, 1, 4], 1, ())"
  using single_fold_debias_raises[where lib = example_library and nm = exact_arithmetic
      and solver = "flat_solver 0" and X = "[[1, 0], [2, 1], [- 1, 0]]" and y = "[1, 2, 3]"
      and msk = "[[[True, True]]]" and alphas = "Some [1]" and ?l1_ratio = "1 / 2"
      and train = "[0, 1, 2]" and n_alphas = 10 and eps = "1 / 1000" and is_classif = False
      and init = None and key = "()" and Xmean = "Some [2, 1]" and ymean = 7
      and screening_percentile = 20 and verbose = 0 and r = "([NaN], [1, 1, 4], 1, ())"]
  by simp

end
